theory Spec2Isabelle
  imports Main "HOL-Library.Word" "HOL-Library.Sublist"
begin

section \<open>Strings\<close>

text \<open>
  A JavaScript string is a sequence of UTF-16 code units. The literals of \<^verbatim>\<open>server.js\<close> are
  written out below as their code units (all of them lie in the Basic Multilingual Plane and
  are in composed form, as in the file); the comment on each gives the text without
  diacritics.
\<close>

type_synonym jsstring = "16 word list"

text \<open>\<^verbatim>\<open>s.includes(w)\<close>: \<open>w\<close> occurs in \<open>s\<close> as a contiguous run of code units.\<close>

fun includesStr :: "jsstring \<Rightarrow> jsstring \<Rightarrow> bool" where
  "includesStr [] w = (w = [])"
| "includesStr (c # cs) w = (prefix w (c # cs) \<or> includesStr cs w)"

text \<open>\<^verbatim>\<open>[...].some(w => lower.includes(w))\<close>\<close>

definition someIncluded :: "jsstring list \<Rightarrow> jsstring \<Rightarrow> bool" where
  "someIncluded ws lower = list_ex (\<lambda>w. includesStr lower w) ws"

text \<open>
  \<^verbatim>\<open>s.trim()\<close> removes the white space and line terminators of ECMAScript from both ends.
\<close>

definition isWhiteSpace :: "16 word \<Rightarrow> bool" where
  "isWhiteSpace c \<longleftrightarrow>
     c \<in> {0x9, 0xA, 0xB, 0xC, 0xD, 0x20, 0xA0, 0x1680, 0x2028, 0x2029, 0x202F, 0x205F,
          0x3000, 0xFEFF} \<or> (0x2000 \<le> c \<and> c \<le> 0x200A)"

definition trim :: "jsstring \<Rightarrow> jsstring" where
  "trim s = rev (dropWhile isWhiteSpace (rev (dropWhile isWhiteSpace s)))"

text \<open>\<^verbatim>\<open>!x\<close> for a request field that is absent or a string: absent and \<^verbatim>\<open>""\<close> are falsy.\<close>

definition falsy :: "jsstring option \<Rightarrow> bool" where
  "falsy x = (case x of None \<Rightarrow> True | Some s \<Rightarrow> s = [])"

text \<open>\<^verbatim>\<open>parts.join(sep)\<close>\<close>

fun joinStr :: "jsstring \<Rightarrow> jsstring list \<Rightarrow> jsstring" where
  "joinStr sep [] = []"
| "joinStr sep [x] = x"
| "joinStr sep (x # y # ys) = x @ sep @ joinStr sep (y # ys)"

subsection \<open>The literals of the source\<close>

definition tok_co :: jsstring where
  \<comment> \<open>co\<close>
  "tok_co =
   [0x63, 0xF3]"

definition tok_ok :: jsstring where
  \<comment> \<open>ok\<close>
  "tok_ok =
   [0x6F, 0x6B]"

definition tok_dung :: jsstring where
  \<comment> \<open>dung\<close>
  "tok_dung =
   [0x111, 0xFA, 0x6E, 0x67]"

definition tok_yes :: jsstring where
  \<comment> \<open>yes\<close>
  "tok_yes =
   [0x79, 0x65, 0x73]"

definition tok_khong :: jsstring where
  \<comment> \<open>khong\<close>
  "tok_khong =
   [0x6B, 0x68, 0xF4, 0x6E, 0x67]"

definition tok_no :: jsstring where
  \<comment> \<open>no\<close>
  "tok_no =
   [0x6E, 0x6F]"

definition tok_tu_choi :: jsstring where
  \<comment> \<open>tu choi\<close>
  "tok_tu_choi =
   [0x74, 0x1EEB, 0x20, 0x63, 0x68, 0x1ED1, 0x69]"

definition kw_tim :: jsstring where
  \<comment> \<open>tim\<close>
  "kw_tim =
   [0x74, 0x69, 0x6D]"

definition kw_huyet_ap :: jsstring where
  \<comment> \<open>huyet ap\<close>
  "kw_huyet_ap =
   [0x68, 0x75, 0x79, 0x1EBF, 0x74, 0x20, 0xE1, 0x70]"

definition kw_da :: jsstring where
  \<comment> \<open>da\<close>
  "kw_da =
   [0x64, 0x61]"

definition kw_mun :: jsstring where
  \<comment> \<open>mun\<close>
  "kw_mun =
   [0x6D, 0x1EE5, 0x6E]"

definition kw_tai :: jsstring where
  \<comment> \<open>tai\<close>
  "kw_tai =
   [0x74, 0x61, 0x69]"

definition kw_mui :: jsstring where
  \<comment> \<open>mui\<close>
  "kw_mui =
   [0x6D, 0x169, 0x69]"

definition kw_hong :: jsstring where
  \<comment> \<open>hong\<close>
  "kw_hong =
   [0x68, 0x1ECD, 0x6E, 0x67]"

definition Tim_mach :: jsstring where
  \<comment> \<open>Tim mach\<close>
  "Tim_mach =
   [0x54, 0x69, 0x6D, 0x20, 0x6D, 0x1EA1, 0x63, 0x68]"

definition Da_lieu :: jsstring where
  \<comment> \<open>Da lieu\<close>
  "Da_lieu =
   [0x44, 0x61, 0x20, 0x6C, 0x69, 0x1EC5, 0x75]"

definition Tai_mui_hong :: jsstring where
  \<comment> \<open>Tai mui hong\<close>
  "Tai_mui_hong =
   [0x54, 0x61, 0x69, 0x20, 0x6D, 0x169, 0x69, 0x20, 0x68, 0x1ECD, 0x6E, 0x67]"

definition Noi_tong_quat :: jsstring where
  \<comment> \<open>Noi tong quat\<close>
  "Noi_tong_quat =
   [0x4E, 0x1ED9, 0x69, 0x20, 0x74, 0x1ED5, 0x6E, 0x67, 0x20, 0x71, 0x75, 0xE1,
   0x74]"

definition noResponseText :: jsstring where
  \<comment> \<open>(Khong co phan hoi)\<close>
  "noResponseText =
   [0x28, 0x4B, 0x68, 0xF4, 0x6E, 0x67, 0x20, 0x63, 0xF3, 0x20, 0x70, 0x68,
   0x1EA3, 0x6E, 0x20, 0x68, 0x1ED3, 0x69, 0x29]"

definition declineNotice :: jsstring where
  \<comment> \<open>? Ban da tu choi chuyen sang bac si. Tiep tuc chat voi AI.\<close>
  "declineNotice =
   [0x274C, 0x20, 0x42, 0x1EA1, 0x6E, 0x20, 0x111, 0xE3, 0x20, 0x74, 0x1EEB, 0x20,
   0x63, 0x68, 0x1ED1, 0x69, 0x20, 0x63, 0x68, 0x75, 0x79, 0x1EC3, 0x6E, 0x20,
   0x73, 0x61, 0x6E, 0x67, 0x20, 0x62, 0xE1, 0x63, 0x20, 0x73, 0x129, 0x2E,
   0x20, 0x54, 0x69, 0x1EBF, 0x70, 0x20, 0x74, 0x1EE5, 0x63, 0x20, 0x63, 0x68,
   0x61, 0x74, 0x20, 0x76, 0x1EDB, 0x69, 0x20, 0x41, 0x49, 0x2E]"

definition noDoctorName :: jsstring where
  \<comment> \<open>Chua co bac si trong he thong\<close>
  "noDoctorName =
   [0x43, 0x68, 0x1B0, 0x61, 0x20, 0x63, 0xF3, 0x20, 0x62, 0xE1, 0x63, 0x20,
   0x73, 0x129, 0x20, 0x74, 0x72, 0x6F, 0x6E, 0x67, 0x20, 0x68, 0x1EC7, 0x20,
   0x74, 0x68, 0x1ED1, 0x6E, 0x67]"

definition noDoctorHospital :: jsstring where
  \<comment> \<open>Vui long den benh vien gan nhat\<close>
  "noDoctorHospital =
   [0x56, 0x75, 0x69, 0x20, 0x6C, 0xF2, 0x6E, 0x67, 0x20, 0x111, 0x1EBF, 0x6E,
   0x20, 0x62, 0x1EC7, 0x6E, 0x68, 0x20, 0x76, 0x69, 0x1EC7, 0x6E, 0x20, 0x67,
   0x1EA7, 0x6E, 0x20, 0x6E, 0x68, 0x1EA5, 0x74]"

definition role_user :: jsstring where
  \<comment> \<open>user\<close>
  "role_user =
   [0x75, 0x73, 0x65, 0x72]"

definition role_assistant :: jsstring where
  \<comment> \<open>assistant\<close>
  "role_assistant =
   [0x61, 0x73, 0x73, 0x69, 0x73, 0x74, 0x61, 0x6E, 0x74]"

definition triageprompt_0 :: jsstring where
  \<comment> \<open><LF>Ban la mot bo phan loai ngon ngu.<LF>Nhiem vu: xac dinh xem nguoi dung co **MUON gap bac si** hay khong.<LF><LF>- Neu nguoi dung MUON gap bac si ? tra ve: "yes"<LF>- Neu nguoi dung KHONG MUON hoac PHU DINH ? tra ve: "no"<LF>- Khong can giai thich them.<LF><LF>Cau nguoi dung: "\<close>
  "triageprompt_0 =
   [0xA, 0x42, 0x1EA1, 0x6E, 0x20, 0x6C, 0xE0, 0x20, 0x6D, 0x1ED9, 0x74, 0x20,
   0x62, 0x1ED9, 0x20, 0x70, 0x68, 0xE2, 0x6E, 0x20, 0x6C, 0x6F, 0x1EA1, 0x69,
   0x20, 0x6E, 0x67, 0xF4, 0x6E, 0x20, 0x6E, 0x67, 0x1EEF, 0x2E, 0xA, 0x4E,
   0x68, 0x69, 0x1EC7, 0x6D, 0x20, 0x76, 0x1EE5, 0x3A, 0x20, 0x78, 0xE1, 0x63,
   0x20, 0x111, 0x1ECB, 0x6E, 0x68, 0x20, 0x78, 0x65, 0x6D, 0x20, 0x6E, 0x67,
   0x1B0, 0x1EDD, 0x69, 0x20, 0x64, 0xF9, 0x6E, 0x67, 0x20, 0x63, 0xF3, 0x20,
   0x2A, 0x2A, 0x4D, 0x55, 0x1ED0, 0x4E, 0x20, 0x67, 0x1EB7, 0x70, 0x20, 0x62,
   0xE1, 0x63, 0x20, 0x73, 0x129, 0x2A, 0x2A, 0x20, 0x68, 0x61, 0x79, 0x20,
   0x6B, 0x68, 0xF4, 0x6E, 0x67, 0x2E, 0xA, 0xA, 0x2D, 0x20, 0x4E, 0x1EBF,
   0x75, 0x20, 0x6E, 0x67, 0x1B0, 0x1EDD, 0x69, 0x20, 0x64, 0xF9, 0x6E, 0x67,
   0x20, 0x4D, 0x55, 0x1ED0, 0x4E, 0x20, 0x67, 0x1EB7, 0x70, 0x20, 0x62, 0xE1,
   0x63, 0x20, 0x73, 0x129, 0x20, 0x2192, 0x20, 0x74, 0x72, 0x1EA3, 0x20, 0x76,
   0x1EC1, 0x3A, 0x20, 0x22, 0x79, 0x65, 0x73, 0x22, 0xA, 0x2D, 0x20, 0x4E,
   0x1EBF, 0x75, 0x20, 0x6E, 0x67, 0x1B0, 0x1EDD, 0x69, 0x20, 0x64, 0xF9, 0x6E,
   0x67, 0x20, 0x4B, 0x48, 0xD4, 0x4E, 0x47, 0x20, 0x4D, 0x55, 0x1ED0, 0x4E,
   0x20, 0x68, 0x6F, 0x1EB7, 0x63, 0x20, 0x50, 0x48, 0x1EE6, 0x20, 0x110, 0x1ECA,
   0x4E, 0x48, 0x20, 0x2192, 0x20, 0x74, 0x72, 0x1EA3, 0x20, 0x76, 0x1EC1, 0x3A,
   0x20, 0x22, 0x6E, 0x6F, 0x22, 0xA, 0x2D, 0x20, 0x4B, 0x68, 0xF4, 0x6E,
   0x67, 0x20, 0x63, 0x1EA7, 0x6E, 0x20, 0x67, 0x69, 0x1EA3, 0x69, 0x20, 0x74,
   0x68, 0xED, 0x63, 0x68, 0x20, 0x74, 0x68, 0xEA, 0x6D, 0x2E, 0xA, 0xA,
   0x43, 0xE2, 0x75, 0x20, 0x6E, 0x67, 0x1B0, 0x1EDD, 0x69, 0x20, 0x64, 0xF9,
   0x6E, 0x67, 0x3A, 0x20, 0x22]"

definition triageprompt_1 :: jsstring where
  \<comment> \<open>"<LF>  \<close>
  "triageprompt_1 =
   [0x22, 0xA, 0x20, 0x20]"

definition doctorPrompt_0 :: jsstring where
  \<comment> \<open><LF>Ban la \<close>
  "doctorPrompt_0 =
   [0xA, 0x42, 0x1EA1, 0x6E, 0x20, 0x6C, 0xE0, 0x20]"

definition doctorPrompt_1 :: jsstring where
  \<comment> \<open>, chuyen khoa \<close>
  "doctorPrompt_1 =
   [0x2C, 0x20, 0x63, 0x68, 0x75, 0x79, 0xEA, 0x6E, 0x20, 0x6B, 0x68, 0x6F,
   0x61, 0x20]"

definition doctorPrompt_2 :: jsstring where
  \<comment> \<open>, dang tu van cho benh nhan.<LF>- Ban co chuyen mon vua phai, khong di kham sau.<LF>- Tra loi than thien, de hieu, bang tieng Viet, giong van phu hop bac si.<LF>- Khong dua ra chan doan chac chan, chi goi y va khuyen benh nhan di kham truc tiep neu can.<LF><LF>Tin nhan moi nhat tu benh nhan: "\<close>
  "doctorPrompt_2 =
   [0x2C, 0x20, 0x111, 0x61, 0x6E, 0x67, 0x20, 0x74, 0x1B0, 0x20, 0x76, 0x1EA5,
   0x6E, 0x20, 0x63, 0x68, 0x6F, 0x20, 0x62, 0x1EC7, 0x6E, 0x68, 0x20, 0x6E,
   0x68, 0xE2, 0x6E, 0x2E, 0xA, 0x2D, 0x20, 0x42, 0x1EA1, 0x6E, 0x20, 0x63,
   0xF3, 0x20, 0x63, 0x68, 0x75, 0x79, 0xEA, 0x6E, 0x20, 0x6D, 0xF4, 0x6E,
   0x20, 0x76, 0x1EEB, 0x61, 0x20, 0x70, 0x68, 0x1EA3, 0x69, 0x2C, 0x20, 0x6B,
   0x68, 0xF4, 0x6E, 0x67, 0x20, 0x111, 0x69, 0x20, 0x6B, 0x68, 0xE1, 0x6D,
   0x20, 0x73, 0xE2, 0x75, 0x2E, 0xA, 0x2D, 0x20, 0x54, 0x72, 0x1EA3, 0x20,
   0x6C, 0x1EDD, 0x69, 0x20, 0x74, 0x68, 0xE2, 0x6E, 0x20, 0x74, 0x68, 0x69,
   0x1EC7, 0x6E, 0x2C, 0x20, 0x64, 0x1EC5, 0x20, 0x68, 0x69, 0x1EC3, 0x75, 0x2C,
   0x20, 0x62, 0x1EB1, 0x6E, 0x67, 0x20, 0x74, 0x69, 0x1EBF, 0x6E, 0x67, 0x20,
   0x56, 0x69, 0x1EC7, 0x74, 0x2C, 0x20, 0x67, 0x69, 0x1ECD, 0x6E, 0x67, 0x20,
   0x76, 0x103, 0x6E, 0x20, 0x70, 0x68, 0xF9, 0x20, 0x68, 0x1EE3, 0x70, 0x20,
   0x62, 0xE1, 0x63, 0x20, 0x73, 0x129, 0x2E, 0xA, 0x2D, 0x20, 0x4B, 0x68,
   0xF4, 0x6E, 0x67, 0x20, 0x111, 0x1B0, 0x61, 0x20, 0x72, 0x61, 0x20, 0x63,
   0x68, 0x1EA9, 0x6E, 0x20, 0x111, 0x6F, 0xE1, 0x6E, 0x20, 0x63, 0x68, 0x1EAF,
   0x63, 0x20, 0x63, 0x68, 0x1EAF, 0x6E, 0x2C, 0x20, 0x63, 0x68, 0x1EC9, 0x20,
   0x67, 0x1EE3, 0x69, 0x20, 0xFD, 0x20, 0x76, 0xE0, 0x20, 0x6B, 0x68, 0x75,
   0x79, 0xEA, 0x6E, 0x20, 0x62, 0x1EC7, 0x6E, 0x68, 0x20, 0x6E, 0x68, 0xE2,
   0x6E, 0x20, 0x111, 0x69, 0x20, 0x6B, 0x68, 0xE1, 0x6D, 0x20, 0x74, 0x72,
   0x1EF1, 0x63, 0x20, 0x74, 0x69, 0x1EBF, 0x70, 0x20, 0x6E, 0x1EBF, 0x75, 0x20,
   0x63, 0x1EA7, 0x6E, 0x2E, 0xA, 0xA, 0x54, 0x69, 0x6E, 0x20, 0x6E, 0x68,
   0x1EAF, 0x6E, 0x20, 0x6D, 0x1EDB, 0x69, 0x20, 0x6E, 0x68, 0x1EA5, 0x74, 0x20,
   0x74, 0x1EEB, 0x20, 0x62, 0x1EC7, 0x6E, 0x68, 0x20, 0x6E, 0x68, 0xE2, 0x6E,
   0x3A, 0x20, 0x22]"

definition doctorPrompt_3 :: jsstring where
  \<comment> \<open>"<LF>\<close>
  "doctorPrompt_3 =
   [0x22, 0xA]"

definition aiPrompt_0 :: jsstring where
  \<comment> \<open><LF>Ban la Mediverse, mot y ta co kien thuc y khoa co ban.<LF>- Tu van suc khoe co ban bang tieng Viet.<LF>- Khong thay the chan doan bac si.<LF>- Tra loi ngan gon, de hieu.<LF>- Dung giong van than thien, tich cuc, de gan.<LF><LF>Tin nhan moi nhat tu nguoi dung: "\<close>
  "aiPrompt_0 =
   [0xA, 0x42, 0x1EA1, 0x6E, 0x20, 0x6C, 0xE0, 0x20, 0x4D, 0x65, 0x64, 0x69,
   0x76, 0x65, 0x72, 0x73, 0x65, 0x2C, 0x20, 0x6D, 0x1ED9, 0x74, 0x20, 0x79,
   0x20, 0x74, 0xE1, 0x20, 0x63, 0xF3, 0x20, 0x6B, 0x69, 0x1EBF, 0x6E, 0x20,
   0x74, 0x68, 0x1EE9, 0x63, 0x20, 0x79, 0x20, 0x6B, 0x68, 0x6F, 0x61, 0x20,
   0x63, 0x1A1, 0x20, 0x62, 0x1EA3, 0x6E, 0x2E, 0xA, 0x2D, 0x20, 0x54, 0x1B0,
   0x20, 0x76, 0x1EA5, 0x6E, 0x20, 0x73, 0x1EE9, 0x63, 0x20, 0x6B, 0x68, 0x1ECF,
   0x65, 0x20, 0x63, 0x1A1, 0x20, 0x62, 0x1EA3, 0x6E, 0x20, 0x62, 0x1EB1, 0x6E,
   0x67, 0x20, 0x74, 0x69, 0x1EBF, 0x6E, 0x67, 0x20, 0x56, 0x69, 0x1EC7, 0x74,
   0x2E, 0xA, 0x2D, 0x20, 0x4B, 0x68, 0xF4, 0x6E, 0x67, 0x20, 0x74, 0x68,
   0x61, 0x79, 0x20, 0x74, 0x68, 0x1EBF, 0x20, 0x63, 0x68, 0x1EA9, 0x6E, 0x20,
   0x111, 0x6F, 0xE1, 0x6E, 0x20, 0x62, 0xE1, 0x63, 0x20, 0x73, 0x129, 0x2E,
   0xA, 0x2D, 0x20, 0x54, 0x72, 0x1EA3, 0x20, 0x6C, 0x1EDD, 0x69, 0x20, 0x6E,
   0x67, 0x1EAF, 0x6E, 0x20, 0x67, 0x1ECD, 0x6E, 0x2C, 0x20, 0x64, 0x1EC5, 0x20,
   0x68, 0x69, 0x1EC3, 0x75, 0x2E, 0xA, 0x2D, 0x20, 0x44, 0xF9, 0x6E, 0x67,
   0x20, 0x67, 0x69, 0x1ECD, 0x6E, 0x67, 0x20, 0x76, 0x103, 0x6E, 0x20, 0x74,
   0x68, 0xE2, 0x6E, 0x20, 0x74, 0x68, 0x69, 0x1EC7, 0x6E, 0x2C, 0x20, 0x74,
   0xED, 0x63, 0x68, 0x20, 0x63, 0x1EF1, 0x63, 0x2C, 0x20, 0x64, 0x1EC5, 0x20,
   0x67, 0x1EA7, 0x6E, 0x2E, 0xA, 0xA, 0x54, 0x69, 0x6E, 0x20, 0x6E, 0x68,
   0x1EAF, 0x6E, 0x20, 0x6D, 0x1EDB, 0x69, 0x20, 0x6E, 0x68, 0x1EA5, 0x74, 0x20,
   0x74, 0x1EEB, 0x20, 0x6E, 0x67, 0x1B0, 0x1EDD, 0x69, 0x20, 0x64, 0xF9, 0x6E,
   0x67, 0x3A, 0x20, 0x22]"

definition aiPrompt_1 :: jsstring where
  \<comment> \<open>"<LF>\<close>
  "aiPrompt_1 =
   [0x22, 0xA]"

definition finalprompt_0 :: jsstring where
  \<comment> \<open><LF>\<close>
  "finalprompt_0 =
   [0xA]"

definition finalprompt_1 :: jsstring where
  \<comment> \<open><LF><LF>Day la toan bo lich su hoi thoai:<LF>\<close>
  "finalprompt_1 =
   [0xA, 0xA, 0x110, 0xE2, 0x79, 0x20, 0x6C, 0xE0, 0x20, 0x74, 0x6F, 0xE0,
   0x6E, 0x20, 0x62, 0x1ED9, 0x20, 0x6C, 0x1ECB, 0x63, 0x68, 0x20, 0x73, 0x1EED,
   0x20, 0x68, 0x1ED9, 0x69, 0x20, 0x74, 0x68, 0x6F, 0x1EA1, 0x69, 0x3A, 0xA]"

definition finalprompt_2 :: jsstring where
  \<comment> \<open><LF>\<close>
  "finalprompt_2 =
   [0xA]"

definition acceptNotice_0 :: jsstring where
  \<comment> \<open>? Ban da duoc chuyen sang muc chat voi bac si \<close>
  "acceptNotice_0 =
   [0x2705, 0x20, 0x42, 0x1EA1, 0x6E, 0x20, 0x111, 0xE3, 0x20, 0x111, 0x1B0, 0x1EE3,
   0x63, 0x20, 0x63, 0x68, 0x75, 0x79, 0x1EC3, 0x6E, 0x20, 0x73, 0x61, 0x6E,
   0x67, 0x20, 0x6D, 0x1EE5, 0x63, 0x20, 0x63, 0x68, 0x61, 0x74, 0x20, 0x76,
   0x1EDB, 0x69, 0x20, 0x62, 0xE1, 0x63, 0x20, 0x73, 0x129, 0x20]"

definition acceptNotice_1 :: jsstring where
  \<comment> \<open> (\<close>
  "acceptNotice_1 =
   [0x20, 0x28]"

definition acceptNotice_2 :: jsstring where
  \<comment> \<open>).\<close>
  "acceptNotice_2 =
   [0x29, 0x2E]"

definition confirmMsg_0 :: jsstring where
  \<comment> \<open>Ban co muon chuyen tiep sang bac si \<close>
  "confirmMsg_0 =
   [0x42, 0x1EA1, 0x6E, 0x20, 0x63, 0xF3, 0x20, 0x6D, 0x75, 0x1ED1, 0x6E, 0x20,
   0x63, 0x68, 0x75, 0x79, 0x1EC3, 0x6E, 0x20, 0x74, 0x69, 0x1EBF, 0x70, 0x20,
   0x73, 0x61, 0x6E, 0x67, 0x20, 0x62, 0xE1, 0x63, 0x20, 0x73, 0x129, 0x20]"

definition confirmMsg_1 :: jsstring where
  \<comment> \<open> (\<close>
  "confirmMsg_1 =
   [0x20, 0x28]"

definition confirmMsg_2 :: jsstring where
  \<comment> \<open>) de duoc tu van khong? (Co / Khong)\<close>
  "confirmMsg_2 =
   [0x29, 0x20, 0x111, 0x1EC3, 0x20, 0x111, 0x1B0, 0x1EE3, 0x63, 0x20, 0x74, 0x1B0,
   0x20, 0x76, 0x1EA5, 0x6E, 0x20, 0x6B, 0x68, 0xF4, 0x6E, 0x67, 0x3F, 0x20,
   0x28, 0x43, 0xF3, 0x20, 0x2F, 0x20, 0x4B, 0x68, 0xF4, 0x6E, 0x67, 0x29]"

section \<open>Data model\<close>

text \<open>
  The schemas of \<^verbatim>\<open>server.js\<close>. Time stamps (\<^verbatim>\<open>timestamp\<close>, \<^verbatim>\<open>createdAt\<close>) are filled in by
  the store from its clock and are read by none of the handlers below; they are left out.
\<close>

datatype role = User | Assistant

record message =
  role :: role
  content :: jsstring

record doctor =
  name :: jsstring
  specialty :: jsstring
  hospital :: "jsstring option"
  experience :: "int option"

text \<open>
  \<^verbatim>\<open>type: { enum: ['ai', 'doctor'], default: 'ai' }\<close>. The nested \<^verbatim>\<open>doctor\<close> of a conversation
  is \<open>None\<close> until a handler assigns it; \<^verbatim>\<open>pendingDoctor\<close> is \<open>None\<close> where the source has
  \<^verbatim>\<open>null\<close>.
\<close>

datatype convType = Ai | DoctorType

record conversation =
  userId :: jsstring
  ctype :: convType
  doctor :: "doctor option"
  pendingDoctor :: "doctor option"
  messages :: "message list"
  summary :: jsstring

text \<open>The second file of the repository keeps temporary conversations and a triage log.\<close>

record tempConversation =
  tempUserId :: jsstring
  tempMessages :: "message list"
  systemInstructions :: jsstring

record triage =
  triageUserId :: jsstring
  symptoms :: jsstring
  suggestedSpecialty :: jsstring

text \<open>
  The collections of the store, and the prompts sent so far to the text-completion model
  (a log kept by the model only to say which calls a handler makes).
\<close>

record world =
  conversations :: "nat \<rightharpoonup> conversation"
  tempConversations :: "nat \<rightharpoonup> tempConversation"
  doctors :: "doctor list"
  triages :: "triage list"
  calls :: "jsstring list"

text \<open>
  What \<^verbatim>\<open>await model.generateContent(prompt)\<close> can give: the promise rejects, or it resolves
  to a result that the handlers then read through \<^verbatim>\<open>result.response.text()\<close>. Each
  constructor is one of the shapes the optional chaining of the source tells apart.
\<close>

datatype genResult =
    Rejected      \<comment> \<open>the call rejects (transport, quota)\<close>
  | NoResult      \<comment> \<open>\<^verbatim>\<open>result\<close> is null or undefined\<close>
  | NoResponse    \<comment> \<open>\<^verbatim>\<open>result.response\<close> is null or undefined\<close>
  | NoTextFn      \<comment> \<open>\<^verbatim>\<open>result.response.text\<close> is null or undefined\<close>
  | TextThrows    \<comment> \<open>\<^verbatim>\<open>text()\<close> throws\<close>
  | NoText        \<comment> \<open>\<^verbatim>\<open>text()\<close> returns null or undefined\<close>
  | Text jsstring \<comment> \<open>\<^verbatim>\<open>text()\<close> returns a string\<close>

text \<open>
  What the handlers take from outside the file: the runtime's \<^verbatim>\<open>String.prototype.toLowerCase\<close>
  and the text-completion model. The model's answer may depend on the prompt and on the
  prompts it was sent before.
\<close>

record runtime =
  toLowerCase :: "jsstring \<Rightarrow> jsstring"
  generateContent :: "jsstring list \<Rightarrow> jsstring \<Rightarrow> genResult"

text \<open>Request bodies and responses.\<close>

record chatBody =
  reqUserId :: "jsstring option"
  question :: "jsstring option"

record triageBody =
  triageReqUserId :: "jsstring option"
  reqSymptoms :: "jsstring option"

record chatReply =
  answer :: jsstring
  replyMessages :: "message list"
  replyDoctor :: "doctor option"
  replyPendingDoctor :: "doctor option"

record tempReply =
  tempAnswer :: jsstring
  tempReplyMessages :: "message list"
  replyTriage :: "triage option"
  tempReplyDoctor :: "doctor option"

datatype response =
    BadRequest                \<comment> \<open>status 400\<close>
  | NotFound                  \<comment> \<open>status 404\<close>
  | ServerError               \<comment> \<open>status 500, from the \<^verbatim>\<open>catch\<close> of the handler\<close>
  | Created nat
  | ChatOk chatReply
  | TempChatOk tempReply
  | TriageOk triage doctor

section \<open>Store and model access\<close>

text \<open>
  The store is taken to be available: \<^verbatim>\<open>findById\<close> and \<^verbatim>\<open>findOne\<close> do not reject, and
  \<^verbatim>\<open>save\<close> rejects only on the validation of the schema.
  \<^verbatim>\<open>Doctor.findOne({ specialty })\<close> gives the first doctor of that specialty.
\<close>

definition findOne :: "jsstring \<Rightarrow> doctor list \<Rightarrow> doctor option" where
  "findOne s ds = find (\<lambda>d. specialty d = s) ds"

definition saveConversation :: "nat \<Rightarrow> conversation \<Rightarrow> world \<Rightarrow> world" where
  "saveConversation i c w = w\<lparr>conversations := (conversations w)(i \<mapsto> c)\<rparr>"

definition saveTemp :: "nat \<Rightarrow> tempConversation \<Rightarrow> world \<Rightarrow> world" where
  "saveTemp i c w = w\<lparr>tempConversations := (tempConversations w)(i \<mapsto> c)\<rparr>"

definition saveTriage :: "triage \<Rightarrow> world \<Rightarrow> world" where
  "saveTriage t w = w\<lparr>triages := triages w @ [t]\<rparr>"

definition callModel :: "runtime \<Rightarrow> world \<Rightarrow> jsstring \<Rightarrow> genResult \<times> world" where
  "callModel rt w prompt =
     (generateContent rt (calls w) prompt, w\<lparr>calls := calls w @ [prompt]\<rparr>)"

text \<open>
  \<^verbatim>\<open>content: { type: String, required: true }\<close> (line 22): the validation that \<^verbatim>\<open>save()\<close>
  runs refuses a message whose content is the empty string, and \<^verbatim>\<open>save()\<close> then rejects. The
  user's message is not empty (line 99) and the notices of the handlers are non-empty
  literals, so the text returned by the model is the one content a handler pushes that can
  be refused. The documents already in the store have passed this validation.
\<close>

definition contentAccepted :: "jsstring \<Rightarrow> bool" where
  "contentAccepted s \<longleftrightarrow> s \<noteq> []"

text \<open>\<^verbatim>\<open>messages.push({ role, content })\<close>\<close>

definition pushMessage :: "role \<Rightarrow> jsstring \<Rightarrow> message list \<Rightarrow> message list" where
  "pushMessage r s ms = ms @ [\<lparr>role = r, content = s\<rparr>]"

section \<open>Intent classifier\<close>

definition triageprompt :: "jsstring \<Rightarrow> jsstring" where
  "triageprompt text = triageprompt_0 @ text @ triageprompt_1"

text \<open>
  First file: \<^verbatim>\<open>result.response.text().trim().toLowerCase()\<close>, then \<^verbatim>\<open>includes("yes")\<close>.
  \<open>None\<close> is a thrown error: the rejected call, or the \<^verbatim>\<open>TypeError\<close> of reading a
  property of null or undefined.
\<close>

definition detectDoctorIntent :: "runtime \<Rightarrow> world \<Rightarrow> jsstring \<Rightarrow> bool option \<times> world" where
  "detectDoctorIntent rt w text =
     (let (result, w') = callModel rt w (triageprompt text)
      in (case result of
            Rejected \<Rightarrow> None
          | NoResult \<Rightarrow> None
          | NoResponse \<Rightarrow> None
          | NoTextFn \<Rightarrow> None
          | TextThrows \<Rightarrow> None
          | NoText \<Rightarrow> None
          | Text s \<Rightarrow> Some (includesStr (toLowerCase rt (trim s)) tok_yes), w'))"

text \<open>
  Second file: \<^verbatim>\<open>if (!text) return false\<close>, then
  \<^verbatim>\<open>result?.response?.text?.().trim().toLowerCase() || ""\<close>.
\<close>

definition detectDoctorIntent2 :: "runtime \<Rightarrow> world \<Rightarrow> jsstring \<Rightarrow> bool option \<times> world" where
  "detectDoctorIntent2 rt w text =
     (if text = [] then (Some False, w)
      else
        let (result, w') = callModel rt w (triageprompt text)
        in (case result of
              Rejected \<Rightarrow> None
            | NoResult \<Rightarrow> Some (includesStr [] tok_yes)
            | NoResponse \<Rightarrow> Some (includesStr [] tok_yes)
            | NoTextFn \<Rightarrow> Some (includesStr [] tok_yes)
            | TextThrows \<Rightarrow> None
            | NoText \<Rightarrow> None
            | Text s \<Rightarrow> Some (includesStr (toLowerCase rt (trim s)) tok_yes), w'))"

section \<open>Specialty matcher\<close>

text \<open>The rule chain of the chat handler (first file, lines 157 to 160).\<close>

definition chatSpecialty :: "jsstring \<Rightarrow> jsstring" where
  "chatSpecialty lower =
     (if includesStr lower kw_tim \<or> includesStr lower kw_huyet_ap then Tim_mach
      else if includesStr lower kw_da \<or> includesStr lower kw_mun then Da_lieu
      else if includesStr lower kw_tai \<or> includesStr lower kw_mui \<or> includesStr lower kw_hong
        then Tai_mui_hong
      else Noi_tong_quat)"

text \<open>
  The rule chain of \<^verbatim>\<open>triageRoute\<close> (lines 281 to 290 of the first file, 558 to 567 of the
  second) and of the temporary chat (lines 496 to 500).
\<close>

definition triageSpecialty :: "jsstring \<Rightarrow> jsstring" where
  "triageSpecialty lower =
     (if includesStr lower kw_da \<or> includesStr lower kw_mun then Da_lieu
      else if includesStr lower kw_tim \<or> includesStr lower kw_huyet_ap then Tim_mach
      else if includesStr lower kw_tai \<or> includesStr lower kw_mui \<or> includesStr lower kw_hong
        then Tai_mui_hong
      else Noi_tong_quat)"

section \<open>Conversation handlers of the first file\<close>

text \<open>\<^verbatim>\<open>new Conversation({ userId, messages: [] })\<close> with the defaults of the schema.\<close>

definition newConversation :: "jsstring \<Rightarrow> conversation" where
  "newConversation u =
     \<lparr>userId = u, ctype = Ai, doctor = None, pendingDoctor = None, messages = [], summary = []\<rparr>"

text \<open>\<^verbatim>\<open>POST /conversation\<close>; \<open>newId\<close> is the identifier the store gives the new document.\<close>

definition createConversation :: "world \<Rightarrow> nat \<Rightarrow> jsstring option \<Rightarrow> response \<times> world" where
  "createConversation w newId u =
     (case u of
        None \<Rightarrow> (BadRequest, w)
      | Some uid \<Rightarrow>
          if uid = [] then (BadRequest, w)
          else (Created newId, saveConversation newId (newConversation uid) w))"

definition affirmative :: "jsstring list" where
  "affirmative = [tok_co, tok_ok, tok_dung, tok_yes]"

definition negative :: "jsstring list" where
  "negative = [tok_khong, tok_no, tok_tu_choi]"

definition acceptNotice :: "doctor \<Rightarrow> jsstring" where
  "acceptNotice d = acceptNotice_0 @ specialty d @ acceptNotice_1 @ name d @ acceptNotice_2"

definition confirmMsg :: "doctor \<Rightarrow> jsstring" where
  "confirmMsg d = confirmMsg_0 @ specialty d @ confirmMsg_1 @ name d @ confirmMsg_2"

definition doctorPrompt :: "doctor \<Rightarrow> jsstring \<Rightarrow> jsstring" where
  "doctorPrompt d q =
     doctorPrompt_0 @ name d @ doctorPrompt_1 @ specialty d @ doctorPrompt_2 @ q @ doctorPrompt_3"

definition aiPrompt :: "jsstring \<Rightarrow> jsstring" where
  "aiPrompt q = aiPrompt_0 @ q @ aiPrompt_1"

text \<open>
  \<^verbatim>\<open>result?.response?.text() ?? "(Khong co phan hoi)"\<close> after the awaited call:
  \<open>None\<close> is a thrown error.
\<close>

definition answerText :: "genResult \<Rightarrow> jsstring option" where
  "answerText result =
     (case result of
        Rejected \<Rightarrow> None
      | NoResult \<Rightarrow> Some noResponseText
      | NoResponse \<Rightarrow> Some noResponseText
      | NoTextFn \<Rightarrow> None
      | TextThrows \<Rightarrow> None
      | NoText \<Rightarrow> Some noResponseText
      | Text s \<Rightarrow> Some s)"

text \<open>
  Step 1 of the chat handler (lines 112 to 129), on the conversation that already holds the
  user's message: \<open>Some\<close> is the conversation to save and the reply to send, \<open>None\<close> is
  falling through to the steps below.
\<close>

definition confirmBranch :: "conversation \<Rightarrow> jsstring \<Rightarrow> (conversation \<times> chatReply) option" where
  "confirmBranch convo lower =
     (case pendingDoctor convo of
        None \<Rightarrow> None
      | Some pending \<Rightarrow>
          if someIncluded affirmative lower then
            let notify = acceptNotice pending;
                convo' = convo\<lparr>ctype := DoctorType, doctor := Some pending, pendingDoctor := None,
                               messages := pushMessage Assistant notify (messages convo)\<rparr>
            in Some (convo', \<lparr>answer = notify, replyMessages = messages convo',
                              replyDoctor = Some pending, replyPendingDoctor = None\<rparr>)
          else if someIncluded negative lower then
            let convo' = convo\<lparr>pendingDoctor := None,
                               messages := pushMessage Assistant declineNotice (messages convo)\<rparr>
            in Some (convo', \<lparr>answer = declineNotice, replyMessages = messages convo',
                              replyDoctor = None, replyPendingDoctor = None\<rparr>)
          else None)"

text \<open>
  Step 2 (lines 132 to 148): the assigned doctor answers. When the answer is the empty
  string, \<^verbatim>\<open>save()\<close> rejects and the \<^verbatim>\<open>catch\<close> answers 500 with nothing stored.
\<close>

definition doctorBranch ::
  "runtime \<Rightarrow> world \<Rightarrow> nat \<Rightarrow> conversation \<Rightarrow> doctor \<Rightarrow> jsstring \<Rightarrow> response \<times> world" where
  "doctorBranch rt w i convo d q =
     (let (result, w1) = callModel rt w (doctorPrompt d q)
      in case answerText result of
           None \<Rightarrow> (ServerError, w1)
         | Some a \<Rightarrow>
             let convo' = convo\<lparr>messages := pushMessage Assistant a (messages convo)\<rparr>
             in if contentAccepted a
                then (ChatOk \<lparr>answer = a, replyMessages = messages convo',
                              replyDoctor = Some d, replyPendingDoctor = None\<rparr>,
                      saveConversation i convo' w1)
                else (ServerError, w1))"

text \<open>
  Step 3.3 (lines 173 to 189): the nurse answers. An empty answer is refused by \<^verbatim>\<open>save()\<close>
  as in step 2.
\<close>

definition nurseReply ::
  "runtime \<Rightarrow> world \<Rightarrow> nat \<Rightarrow> conversation \<Rightarrow> jsstring \<Rightarrow> response \<times> world" where
  "nurseReply rt w i convo q =
     (let (result, w1) = callModel rt w (aiPrompt q)
      in case answerText result of
           None \<Rightarrow> (ServerError, w1)
         | Some a \<Rightarrow>
             let convo' = convo\<lparr>messages := pushMessage Assistant a (messages convo)\<rparr>
             in if contentAccepted a
                then (ChatOk \<lparr>answer = a, replyMessages = messages convo',
                              replyDoctor = None, replyPendingDoctor = None\<rparr>,
                      saveConversation i convo' w1)
                else (ServerError, w1))"

text \<open>
  Step 3 (lines 153 to 189): ask the classifier; when it says yes, match the specialty and
  look a doctor up; offer the doctor found, otherwise let the nurse answer.
\<close>

definition genericBranch ::
  "runtime \<Rightarrow> world \<Rightarrow> nat \<Rightarrow> conversation \<Rightarrow> jsstring \<Rightarrow> jsstring \<Rightarrow> response \<times> world" where
  "genericBranch rt w i convo q lower =
     (case detectDoctorIntent rt w q of
        (None, w1) \<Rightarrow> (ServerError, w1)
      | (Some wantsDoctor, w1) \<Rightarrow>
          (case (if wantsDoctor then findOne (chatSpecialty lower) (doctors w1) else None) of
             Some d \<Rightarrow>
               let convo' = convo\<lparr>pendingDoctor := Some d,
                                  messages := pushMessage Assistant (confirmMsg d) (messages convo)\<rparr>
               in (ChatOk \<lparr>answer = confirmMsg d, replyMessages = messages convo',
                           replyDoctor = None, replyPendingDoctor = Some d\<rparr>,
                   saveConversation i convo' w1)
           | None \<Rightarrow> nurseReply rt w1 i convo q))"

text \<open>\<^verbatim>\<open>POST /chat/:conversationId\<close> (lines 94 to 195).\<close>

definition chat :: "runtime \<Rightarrow> world \<Rightarrow> nat \<Rightarrow> chatBody \<Rightarrow> response \<times> world" where
  "chat rt w conversationId body =
     (if falsy (reqUserId body) \<or> falsy (question body) then (BadRequest, w)
      else
        case (question body, conversations w conversationId) of
          (None, _) \<Rightarrow> (BadRequest, w)
        | (Some q, None) \<Rightarrow> (NotFound, w)
        | (Some q, Some stored) \<Rightarrow>
            let convo = stored\<lparr>messages := pushMessage User q (messages stored)\<rparr>;
                lower = toLowerCase rt q
            in case confirmBranch convo lower of
                 Some (convo', reply) \<Rightarrow> (ChatOk reply, saveConversation conversationId convo' w)
               | None \<Rightarrow>
                   (case (ctype convo, doctor convo) of
                      (DoctorType, Some d) \<Rightarrow> doctorBranch rt w conversationId convo d q
                    | _ \<Rightarrow> genericBranch rt w conversationId convo q lower))"

section \<open>Handlers of the second file\<close>

definition finalprompt :: "jsstring \<Rightarrow> jsstring \<Rightarrow> jsstring" where
  "finalprompt instructions history =
     finalprompt_0 @ instructions @ finalprompt_1 @ history @ finalprompt_2"

definition roleName :: "role \<Rightarrow> jsstring" where
  "roleName r = (case r of User \<Rightarrow> role_user | Assistant \<Rightarrow> role_assistant)"

text \<open>\<^verbatim>\<open>messages.map(m => `${m.role}: ${m.content}`).join('\n')\<close>\<close>

definition historyOf :: "message list \<Rightarrow> jsstring" where
  "historyOf ms = joinStr [0xA] (map (\<lambda>m. roleName (role m) @ [0x3A, 0x20] @ content m) ms)"

text \<open>\<^verbatim>\<open>result?.response?.text?.() ?? '(Khong co phan hoi)'\<close>\<close>

definition answerText2 :: "genResult \<Rightarrow> jsstring option" where
  "answerText2 result =
     (case result of
        Rejected \<Rightarrow> None
      | NoResult \<Rightarrow> Some noResponseText
      | NoResponse \<Rightarrow> Some noResponseText
      | NoTextFn \<Rightarrow> Some noResponseText
      | TextThrows \<Rightarrow> None
      | NoText \<Rightarrow> Some noResponseText
      | Text s \<Rightarrow> Some s)"

text \<open>The record the handlers answer with when the directory has no doctor of the specialty.\<close>

definition noDoctor :: "jsstring \<Rightarrow> doctor" where
  "noDoctor s = \<lparr>name = noDoctorName, specialty = s, hospital = Some noDoctorHospital,
                 experience = None\<rparr>"

text \<open>
  Lines 494 to 514 of the temporary chat: the triage record is saved, then the doctor is
  looked up.
\<close>

definition localTriage ::
  "runtime \<Rightarrow> world \<Rightarrow> jsstring \<Rightarrow> jsstring \<Rightarrow> triage option \<times> doctor option \<times> world" where
  "localTriage rt w u q =
     (let suggested = triageSpecialty (toLowerCase rt q);
          t = \<lparr>triageUserId = u, symptoms = q, suggestedSpecialty = suggested\<rparr>;
          w1 = saveTriage t w
      in (Some t,
          Some (case findOne suggested (doctors w1) of Some d \<Rightarrow> d | None \<Rightarrow> noDoctor suggested),
          w1))"

text \<open>
  \<^verbatim>\<open>POST /temp-chat/:tempConversationId\<close> (lines 471 to 546). An empty answer is refused by
  \<^verbatim>\<open>tempConvo.save()\<close>; the triage record written before stays in the log.
\<close>

definition tempChat :: "runtime \<Rightarrow> world \<Rightarrow> nat \<Rightarrow> chatBody \<Rightarrow> response \<times> world" where
  "tempChat rt w tempConversationId body =
     (if falsy (reqUserId body) \<or> falsy (question body) then (BadRequest, w)
      else
        case (reqUserId body, question body, tempConversations w tempConversationId) of
          (None, _, _) \<Rightarrow> (BadRequest, w)
        | (Some u, None, _) \<Rightarrow> (BadRequest, w)
        | (Some u, Some q, None) \<Rightarrow> (NotFound, w)
        | (Some u, Some q, Some stored) \<Rightarrow>
            let tempConvo = stored\<lparr>tempMessages := pushMessage User q (tempMessages stored)\<rparr>
            in case detectDoctorIntent2 rt w q of
                 (None, w1) \<Rightarrow> (ServerError, w1)
               | (Some wantsDoctor, w1) \<Rightarrow>
                   let (t, d, w2) = (if wantsDoctor then localTriage rt w1 u q else (None, None, w1));
                       history = historyOf (tempMessages tempConvo);
                       (result, w3) =
                          callModel rt w2 (finalprompt (systemInstructions tempConvo) history)
                   in case answerText2 result of
                        None \<Rightarrow> (ServerError, w3)
                      | Some a \<Rightarrow>
                          let tempConvo' =
                                tempConvo\<lparr>tempMessages := pushMessage Assistant a (tempMessages tempConvo)\<rparr>
                          in if contentAccepted a
                             then (TempChatOk \<lparr>tempAnswer = a,
                                       tempReplyMessages = tempMessages tempConvo',
                                       replyTriage = t, tempReplyDoctor = d\<rparr>,
                                   saveTemp tempConversationId tempConvo' w3)
                             else (ServerError, w3))"

text \<open>
  \<^verbatim>\<open>POST /triage\<close> of the second file (lines 549 to 591). The first file holds the same
  handler text (lines 272 to 318) but declares no \<^verbatim>\<open>Triage\<close> model.
\<close>

definition triageRoute :: "runtime \<Rightarrow> world \<Rightarrow> triageBody \<Rightarrow> response \<times> world" where
  "triageRoute rt w body =
     (if falsy (triageReqUserId body) \<or> falsy (reqSymptoms body) then (BadRequest, w)
      else
        case (triageReqUserId body, reqSymptoms body) of
          (Some u, Some s) \<Rightarrow>
            let suggested = triageSpecialty (toLowerCase rt s);
                t = \<lparr>triageUserId = u, symptoms = s, suggestedSpecialty = suggested\<rparr>;
                w1 = saveTriage t w
            in (TriageOk t (case findOne suggested (doctors w1) of
                              Some d \<Rightarrow> d | None \<Rightarrow> noDoctor suggested), w1)
        | _ \<Rightarrow> (BadRequest, w))"

section \<open>Modes\<close>

text \<open>
  The three modes of the specification, read off the fields of the source: \<^verbatim>\<open>type\<close> is
  \<^verbatim>\<open>'doctor'\<close> in the doctor-active mode; otherwise a pending doctor makes the hand-off
  pending.
\<close>

datatype mode = Generic | DoctorHandoffPending | DoctorActive

definition modeOf :: "conversation \<Rightarrow> mode" where
  "modeOf c =
     (if ctype c = DoctorType then DoctorActive
      else if pendingDoctor c \<noteq> None then DoctorHandoffPending
      else Generic)"

text \<open>
  The invariant the specification states for a conversation: a doctor is assigned exactly in
  the doctor-active mode, and a doctor is pending exactly in the pending mode.
\<close>

definition dataInvariant :: "conversation \<Rightarrow> bool" where
  "dataInvariant c \<longleftrightarrow>
     ((doctor c \<noteq> None) = (modeOf c = DoctorActive)) \<and>
     ((pendingDoctor c \<noteq> None) = (modeOf c = DoctorHandoffPending))"

section \<open>Sample runtimes and stores\<close>

text \<open>
  Lower-casing of the ASCII letters only: what \<^verbatim>\<open>toLowerCase\<close> does on a string whose other
  letters are already in lower case.
\<close>

definition lowerAscii :: "jsstring \<Rightarrow> jsstring" where
  "lowerAscii s = map (\<lambda>c. if 0x41 \<le> c \<and> c \<le> 0x5A then c + 0x20 else c) s"

text \<open>A model that answers "yes" to the first prompt of a request and "ok" afterwards.\<close>

definition yesRuntime :: runtime where
  "yesRuntime = \<lparr>toLowerCase = lowerAscii,
                  generateContent = (\<lambda>sent prompt. if sent = [] then Text tok_yes else Text tok_ok)\<rparr>"

text \<open>A model that answers "no" to the first prompt and resolves without a response afterwards.\<close>

definition silentRuntime :: runtime where
  "silentRuntime = \<lparr>toLowerCase = lowerAscii,
                     generateContent = (\<lambda>sent prompt. if sent = [] then Text tok_no else NoResponse)\<rparr>"

text \<open>A model whose result never has a \<^verbatim>\<open>response\<close>.\<close>

definition emptyRuntime :: runtime where
  "emptyRuntime = \<lparr>toLowerCase = lowerAscii, generateContent = (\<lambda>sent prompt. NoResponse)\<rparr>"

text \<open>A model that always answers with the empty text.\<close>

definition blankRuntime :: runtime where
  "blankRuntime = \<lparr>toLowerCase = lowerAscii, generateContent = (\<lambda>sent prompt. Text [])\<rparr>"

definition demoUser :: jsstring where
  \<comment> \<open>u1\<close>
  "demoUser = [0x75, 0x31]"

definition cardiologist :: doctor where
  \<comment> \<open>Dr An, Tim mach\<close>
  "cardiologist = \<lparr>name = [0x41, 0x6E], specialty = Tim_mach, hospital = None, experience = Some 7\<rparr>"

definition dermatologist :: doctor where
  \<comment> \<open>Dr Binh, Da lieu\<close>
  "dermatologist =
     \<lparr>name = [0x42, 0x69, 0x6E, 0x68], specialty = Da_lieu, hospital = None, experience = None\<rparr>"

definition genericConvo :: conversation where
  "genericConvo = newConversation demoUser"

definition pendingConvo :: conversation where
  "pendingConvo = (newConversation demoUser)\<lparr>pendingDoctor := Some cardiologist\<rparr>"

definition doctorConvo :: conversation where
  "doctorConvo = (newConversation demoUser)\<lparr>ctype := DoctorType, doctor := Some cardiologist\<rparr>"

text \<open>Conversation 1 is generic, 2 has a pending hand-off, 3 is with the cardiologist.\<close>

definition demoWorld :: world where
  "demoWorld =
     \<lparr>conversations = [1 \<mapsto> genericConvo, 2 \<mapsto> pendingConvo, 3 \<mapsto> doctorConvo],
      tempConversations =
        [1 \<mapsto> \<lparr>tempUserId = demoUser, tempMessages = [], systemInstructions = []\<rparr>],
      doctors = [cardiologist, dermatologist],
      triages = [],
      calls = []\<rparr>"

definition ask :: "jsstring \<Rightarrow> chatBody" where
  "ask q = \<lparr>reqUserId = Some demoUser, question = Some q\<rparr>"

definition text_kham_da :: jsstring where
  \<comment> \<open>kham da\<close>
  "text_kham_da = [0x6B, 0x68, 0x61, 0x6D, 0x20, 0x64, 0x61]"

definition text_tim_da :: jsstring where
  \<comment> \<open>Tim, da\<close>
  "text_tim_da = [0x54, 0x69, 0x6D, 0x2C, 0x20, 0x64, 0x61]"

definition text_met :: jsstring where
  \<comment> \<open>met\<close>
  "text_met = [0x6D, 0x65, 0x74]"

section \<open>Auxiliary facts\<close>

lemma includesStr_iff: "includesStr s w \<longleftrightarrow> (\<exists>ps ss. s = ps @ w @ ss)"
proof (induction s)
  case Nil
  then show ?case by auto
next
  case (Cons c cs)
  show ?case
  proof
    assume "includesStr (c # cs) w"
    then consider "prefix w (c # cs)" | "includesStr cs w" by auto
    then show "\<exists>ps ss. c # cs = ps @ w @ ss"
    proof cases
      case 1
      then obtain ss where "c # cs = w @ ss" by (auto simp: prefix_def)
      then have "c # cs = [] @ w @ ss" by simp
      then show ?thesis by blast
    next
      case 2
      with Cons.IH obtain ps ss where "cs = ps @ w @ ss" by blast
      then have "c # cs = (c # ps) @ w @ ss" by simp
      then show ?thesis by blast
    qed
  next
    assume "\<exists>ps ss. c # cs = ps @ w @ ss"
    then obtain ps ss where eq: "c # cs = ps @ w @ ss" by blast
    show "includesStr (c # cs) w"
    proof (cases ps)
      case Nil
      with eq have "prefix w (c # cs)" by (simp add: prefix_def)
      then show ?thesis by simp
    next
      case (Cons p ps')
      with eq have "cs = ps' @ w @ ss" by simp
      with Cons.IH have "includesStr cs w" by blast
      then show ?thesis by simp
    qed
  qed
qed

lemma chat_valid:
  assumes "reqUserId body = Some u" "u \<noteq> []" "question body = Some q" "q \<noteq> []"
    and "conversations w i = Some c"
  shows "chat rt w i body =
     (case confirmBranch (c\<lparr>messages := pushMessage User q (messages c)\<rparr>) (toLowerCase rt q) of
        Some (convo', reply) \<Rightarrow> (ChatOk reply, saveConversation i convo' w)
      | None \<Rightarrow>
          (case (ctype c, doctor c) of
             (DoctorType, Some d) \<Rightarrow>
               doctorBranch rt w i (c\<lparr>messages := pushMessage User q (messages c)\<rparr>) d q
           | _ \<Rightarrow> genericBranch rt w i (c\<lparr>messages := pushMessage User q (messages c)\<rparr>) q
                    (toLowerCase rt q)))"
  using assms by (simp add: chat_def falsy_def Let_def split: option.splits)

lemma detect_fst:
  "fst (detectDoctorIntent rt w q) =
     (case generateContent rt (calls w) (triageprompt q) of
        Text s \<Rightarrow> Some (includesStr (toLowerCase rt (trim s)) tok_yes) | _ \<Rightarrow> None)"
  by (simp add: detectDoctorIntent_def callModel_def split: genResult.splits)

lemma detect_snd: "snd (detectDoctorIntent rt w q) = w\<lparr>calls := calls w @ [triageprompt q]\<rparr>"
  by (simp add: detectDoctorIntent_def callModel_def)

lemma genericBranch_throws:
  assumes "fst (detectDoctorIntent rt w q) = None"
  shows "genericBranch rt w i convo q lower = (ServerError, w\<lparr>calls := calls w @ [triageprompt q]\<rparr>)"
proof -
  have "detectDoctorIntent rt w q = (None, w\<lparr>calls := calls w @ [triageprompt q]\<rparr>)"
    using assms detect_snd [of rt w q] by (simp add: prod_eq_iff)
  then show ?thesis by (simp add: genericBranch_def)
qed

lemma genericBranch_offer:
  assumes "fst (detectDoctorIntent rt w q) = Some True"
    and "findOne (chatSpecialty lower) (doctors w) = Some d"
  shows "genericBranch rt w i convo q lower =
     (ChatOk \<lparr>answer = confirmMsg d,
              replyMessages = messages convo @ [\<lparr>role = Assistant, content = confirmMsg d\<rparr>],
              replyDoctor = None, replyPendingDoctor = Some d\<rparr>,
      w\<lparr>conversations := (conversations w)(i \<mapsto>
            convo\<lparr>pendingDoctor := Some d,
                  messages := messages convo @ [\<lparr>role = Assistant, content = confirmMsg d\<rparr>]\<rparr>),
        calls := calls w @ [triageprompt q]\<rparr>)"
proof -
  have "detectDoctorIntent rt w q = (Some True, w\<lparr>calls := calls w @ [triageprompt q]\<rparr>)"
    using assms(1) detect_snd [of rt w q] by (simp add: prod_eq_iff)
  then show ?thesis
    using assms(2) by (simp add: genericBranch_def pushMessage_def saveConversation_def Let_def)
qed

lemma genericBranch_nurse:
  assumes "fst (detectDoctorIntent rt w q) = Some wants"
    and "wants \<longrightarrow> findOne (chatSpecialty lower) (doctors w) = None"
  shows "genericBranch rt w i convo q lower =
     nurseReply rt (w\<lparr>calls := calls w @ [triageprompt q]\<rparr>) i convo q"
proof -
  have "detectDoctorIntent rt w q = (Some wants, w\<lparr>calls := calls w @ [triageprompt q]\<rparr>)"
    using assms(1) detect_snd [of rt w q] by (simp add: prod_eq_iff)
  then show ?thesis
    using assms(2) by (cases wants) (simp_all add: genericBranch_def)
qed

lemma nurseReply_answer:
  assumes "answerText (generateContent rt (calls w) (aiPrompt q)) = Some a" and "a \<noteq> []"
  shows "nurseReply rt w i convo q =
     (ChatOk \<lparr>answer = a, replyMessages = messages convo @ [\<lparr>role = Assistant, content = a\<rparr>],
              replyDoctor = None, replyPendingDoctor = None\<rparr>,
      w\<lparr>conversations := (conversations w)(i \<mapsto>
            convo\<lparr>messages := messages convo @ [\<lparr>role = Assistant, content = a\<rparr>]\<rparr>),
        calls := calls w @ [aiPrompt q]\<rparr>)"
  using assms
  by (simp add: nurseReply_def callModel_def pushMessage_def saveConversation_def
      contentAccepted_def Let_def)

lemma nurseReply_throws:
  assumes "answerText (generateContent rt (calls w) (aiPrompt q)) = None
         \<or> answerText (generateContent rt (calls w) (aiPrompt q)) = Some []"
  shows "nurseReply rt w i convo q = (ServerError, w\<lparr>calls := calls w @ [aiPrompt q]\<rparr>)"
  using assms by (auto simp: nurseReply_def callModel_def contentAccepted_def)

lemma doctorBranch_answer:
  assumes "answerText (generateContent rt (calls w) (doctorPrompt d q)) = Some a" and "a \<noteq> []"
  shows "doctorBranch rt w i convo d q =
     (ChatOk \<lparr>answer = a, replyMessages = messages convo @ [\<lparr>role = Assistant, content = a\<rparr>],
              replyDoctor = Some d, replyPendingDoctor = None\<rparr>,
      w\<lparr>conversations := (conversations w)(i \<mapsto>
            convo\<lparr>messages := messages convo @ [\<lparr>role = Assistant, content = a\<rparr>]\<rparr>),
        calls := calls w @ [doctorPrompt d q]\<rparr>)"
  using assms
  by (simp add: doctorBranch_def callModel_def pushMessage_def saveConversation_def
      contentAccepted_def Let_def)

lemma doctorBranch_throws:
  assumes "answerText (generateContent rt (calls w) (doctorPrompt d q)) = None
         \<or> answerText (generateContent rt (calls w) (doctorPrompt d q)) = Some []"
  shows "doctorBranch rt w i convo d q = (ServerError, w\<lparr>calls := calls w @ [doctorPrompt d q]\<rparr>)"
  using assms by (auto simp: doctorBranch_def callModel_def contentAccepted_def)

lemma noResponseText_nonempty: "noResponseText \<noteq> []"
  by (simp add: noResponseText_def)

lemma confirmBranch_none:
  assumes "pendingDoctor convo = None \<or>
           (\<not> someIncluded affirmative lower \<and> \<not> someIncluded negative lower)"
  shows "confirmBranch convo lower = None"
  using assms by (auto simp: confirmBranch_def split: option.splits)

lemma chat_generic:
  assumes "reqUserId body = Some u" "u \<noteq> []" "question body = Some q" "q \<noteq> []"
    and "conversations w i = Some c" and "ctype c = Ai"
    and "pendingDoctor c = None \<or>
         (\<not> someIncluded affirmative (toLowerCase rt q) \<and> \<not> someIncluded negative (toLowerCase rt q))"
  shows "chat rt w i body =
     genericBranch rt w i (c\<lparr>messages := messages c @ [\<lparr>role = User, content = q\<rparr>]\<rparr>) q
       (toLowerCase rt q)"
proof -
  have "confirmBranch (c\<lparr>messages := pushMessage User q (messages c)\<rparr>) (toLowerCase rt q) = None"
    using assms(7) by (intro confirmBranch_none) simp
  then show ?thesis
    using assms(1-6) by (simp add: chat_valid pushMessage_def)
qed

text \<open>The modes in terms of the fields.\<close>

lemma pending_is_ai: "modeOf c = DoctorHandoffPending \<Longrightarrow> ctype c = Ai"
  by (cases "ctype c") (simp_all add: modeOf_def)

lemma generic_is_ai: "modeOf c = Generic \<Longrightarrow> ctype c = Ai \<and> pendingDoctor c = None"
  by (cases "ctype c") (simp_all add: modeOf_def split: if_splits)

text \<open>The classifier of the second file.\<close>

lemma detect2_fst:
  "text \<noteq> [] \<Longrightarrow> fst (detectDoctorIntent2 rt w text) =
     (case generateContent rt (calls w) (triageprompt text) of
        Text s \<Rightarrow> Some (includesStr (toLowerCase rt (trim s)) tok_yes)
      | NoResult \<Rightarrow> Some False | NoResponse \<Rightarrow> Some False | NoTextFn \<Rightarrow> Some False
      | _ \<Rightarrow> None)"
  by (simp add: detectDoctorIntent2_def callModel_def tok_yes_def split: genResult.splits)

lemma detect2_snd:
  "text \<noteq> [] \<Longrightarrow> snd (detectDoctorIntent2 rt w text) = w\<lparr>calls := calls w @ [triageprompt text]\<rparr>"
  by (simp add: detectDoctorIntent2_def callModel_def)

text \<open>The temporary chat on a well-formed request for a stored conversation.\<close>

lemma tempChat_valid:
  assumes "reqUserId body = Some u" "u \<noteq> []" "question body = Some q" "q \<noteq> []"
    and "tempConversations w i = Some tc"
  shows "tempChat rt w i body =
     (case detectDoctorIntent2 rt w q of
        (None, w1) \<Rightarrow> (ServerError, w1)
      | (Some wantsDoctor, w1) \<Rightarrow>
          (case (if wantsDoctor then localTriage rt w1 u q else (None, None, w1)) of
             (t, d, w2) \<Rightarrow>
               (case answerText2 (generateContent rt (calls w2)
                       (finalprompt (systemInstructions tc)
                          (historyOf (tempMessages tc @ [\<lparr>role = User, content = q\<rparr>])))) of
                  None \<Rightarrow>
                    (ServerError,
                     w2\<lparr>calls := calls w2 @ [finalprompt (systemInstructions tc)
                          (historyOf (tempMessages tc @ [\<lparr>role = User, content = q\<rparr>]))]\<rparr>)
                | Some a \<Rightarrow>
                    if a = [] then
                      (ServerError,
                       w2\<lparr>calls := calls w2 @ [finalprompt (systemInstructions tc)
                            (historyOf (tempMessages tc @ [\<lparr>role = User, content = q\<rparr>]))]\<rparr>)
                    else
                      (TempChatOk \<lparr>tempAnswer = a,
                          tempReplyMessages = tempMessages tc @ [\<lparr>role = User, content = q\<rparr>,
                                                                 \<lparr>role = Assistant, content = a\<rparr>],
                          replyTriage = t, tempReplyDoctor = d\<rparr>,
                       w2\<lparr>tempConversations := (tempConversations w2)(i \<mapsto>
                             tc\<lparr>tempMessages := tempMessages tc @ [\<lparr>role = User, content = q\<rparr>,
                                                     \<lparr>role = Assistant, content = a\<rparr>]\<rparr>),
                          calls := calls w2 @ [finalprompt (systemInstructions tc)
                            (historyOf (tempMessages tc @ [\<lparr>role = User, content = q\<rparr>]))]\<rparr>))))"
  using assms
  by (simp add: tempChat_def falsy_def Let_def callModel_def pushMessage_def saveTemp_def
      contentAccepted_def split: option.splits prod.splits)

section \<open>The pending confirmation\<close>

text \<open>
  Claim C1. When a doctor is pending and the lower-cased message contains one of the
  affirmative tokens, the conversation becomes a doctor conversation with the pending doctor
  assigned and no doctor pending, one assistant message announcing the hand-off with the
  doctor's specialty and name is appended after the user's message and returned as the
  answer, and no prompt is sent to the model.
\<close>

theorem chat_accept_pending:
  assumes "conversations w i = Some c" and "pendingDoctor c = Some pd"
    and "reqUserId body = Some u" "u \<noteq> []" "question body = Some q" "q \<noteq> []"
    and "someIncluded affirmative (toLowerCase rt q)"
  shows "chat rt w i body =
     (ChatOk \<lparr>answer = acceptNotice pd,
              replyMessages = messages c @ [\<lparr>role = User, content = q\<rparr>,
                                            \<lparr>role = Assistant, content = acceptNotice pd\<rparr>],
              replyDoctor = Some pd, replyPendingDoctor = None\<rparr>,
      w\<lparr>conversations := (conversations w)(i \<mapsto>
           c\<lparr>ctype := DoctorType, doctor := Some pd, pendingDoctor := None,
             messages := messages c @ [\<lparr>role = User, content = q\<rparr>,
                                       \<lparr>role = Assistant, content = acceptNotice pd\<rparr>]\<rparr>)\<rparr>)
   \<and> modeOf (c\<lparr>ctype := DoctorType, doctor := Some pd, pendingDoctor := None,
             messages := messages c @ [\<lparr>role = User, content = q\<rparr>,
                                       \<lparr>role = Assistant, content = acceptNotice pd\<rparr>]\<rparr>) = DoctorActive
   \<and> calls (snd (chat rt w i body)) = calls w
   \<and> acceptNotice pd = acceptNotice_0 @ specialty pd @ acceptNotice_1 @ name pd @ acceptNotice_2"
  using assms
  by (simp add: chat_valid confirmBranch_def pushMessage_def saveConversation_def modeOf_def
      acceptNotice_def Let_def)

text \<open>
  Claim C1 at an input: conversation 2 of the sample store, the message "co" (with its
  accent).
\<close>

theorem chat_accept_pending_witness:
  "conversations demoWorld 2 = Some pendingConvo \<and> pendingDoctor pendingConvo = Some cardiologist
   \<and> someIncluded affirmative (toLowerCase emptyRuntime tok_co)
   \<and> fst (chat emptyRuntime demoWorld 2 (ask tok_co)) =
       ChatOk \<lparr>answer = acceptNotice cardiologist,
              replyMessages = [\<lparr>role = User, content = tok_co\<rparr>,
                               \<lparr>role = Assistant, content = acceptNotice cardiologist\<rparr>],
              replyDoctor = Some cardiologist, replyPendingDoctor = None\<rparr>
   \<and> map_option (\<lambda>c. (ctype c, doctor c, pendingDoctor c))
         (conversations (snd (chat emptyRuntime demoWorld 2 (ask tok_co))) 2)
       = Some (DoctorType, Some cardiologist, None)
   \<and> calls (snd (chat emptyRuntime demoWorld 2 (ask tok_co))) = []"
  using chat_accept_pending [of demoWorld 2 pendingConvo cardiologist "ask tok_co" demoUser tok_co
      emptyRuntime]
  by (simp add: demoWorld_def pendingConvo_def newConversation_def ask_def demoUser_def tok_co_def
      someIncluded_def affirmative_def emptyRuntime_def lowerAscii_def)

text \<open>
  Claim C2. When the hand-off is pending and the lower-cased message contains no affirmative
  token but one of the negative tokens, the pending doctor is cleared, the conversation is
  in generic mode, one assistant message declining the hand-off is appended and returned,
  and no prompt is sent to the model.
\<close>

theorem chat_decline_pending:
  assumes "conversations w i = Some c"
    and "modeOf c = DoctorHandoffPending" and "pendingDoctor c = Some pd"
    and "reqUserId body = Some u" "u \<noteq> []" "question body = Some q" "q \<noteq> []"
    and "\<not> someIncluded affirmative (toLowerCase rt q)"
    and "someIncluded negative (toLowerCase rt q)"
  shows "chat rt w i body =
     (ChatOk \<lparr>answer = declineNotice,
              replyMessages = messages c @ [\<lparr>role = User, content = q\<rparr>,
                                            \<lparr>role = Assistant, content = declineNotice\<rparr>],
              replyDoctor = None, replyPendingDoctor = None\<rparr>,
      w\<lparr>conversations := (conversations w)(i \<mapsto>
           c\<lparr>pendingDoctor := None,
             messages := messages c @ [\<lparr>role = User, content = q\<rparr>,
                                       \<lparr>role = Assistant, content = declineNotice\<rparr>]\<rparr>)\<rparr>)
   \<and> modeOf (c\<lparr>pendingDoctor := None,
             messages := messages c @ [\<lparr>role = User, content = q\<rparr>,
                                       \<lparr>role = Assistant, content = declineNotice\<rparr>]\<rparr>) = Generic
   \<and> calls (snd (chat rt w i body)) = calls w"
  using assms
  by (simp add: chat_valid confirmBranch_def pushMessage_def saveConversation_def modeOf_def
      Let_def split: if_splits)

text \<open>
  Claim C2 at an input: conversation 2 of the sample store, the message "khong" (with its
  accent).
\<close>

theorem chat_decline_pending_witness:
  "conversations demoWorld 2 = Some pendingConvo \<and> modeOf pendingConvo = DoctorHandoffPending
   \<and> pendingDoctor pendingConvo = Some cardiologist
   \<and> \<not> someIncluded affirmative (toLowerCase emptyRuntime tok_khong)
   \<and> someIncluded negative (toLowerCase emptyRuntime tok_khong)
   \<and> fst (chat emptyRuntime demoWorld 2 (ask tok_khong)) =
       ChatOk \<lparr>answer = declineNotice,
              replyMessages = [\<lparr>role = User, content = tok_khong\<rparr>,
                               \<lparr>role = Assistant, content = declineNotice\<rparr>],
              replyDoctor = None, replyPendingDoctor = None\<rparr>
   \<and> map_option pendingDoctor (conversations (snd (chat emptyRuntime demoWorld 2 (ask tok_khong))) 2)
       = Some None
   \<and> calls (snd (chat emptyRuntime demoWorld 2 (ask tok_khong))) = []"
  using chat_decline_pending [of demoWorld 2 pendingConvo cardiologist "ask tok_khong" demoUser
      tok_khong emptyRuntime]
  by (simp add: demoWorld_def pendingConvo_def newConversation_def ask_def demoUser_def
      tok_khong_def tok_co_def tok_ok_def tok_dung_def tok_yes_def tok_no_def tok_tu_choi_def
      someIncluded_def affirmative_def negative_def emptyRuntime_def lowerAscii_def modeOf_def)

text \<open>
  Claim C3 as stated fails: conversation 2 waits for the cardiologist, the message
  "kham da" holds neither an affirmative nor a negative token, the classifier answers
  "yes", and the generic branch replaces the pending doctor by the dermatologist.
\<close>

theorem pending_offer_replaced_counterexample:
  "conversations demoWorld 2 = Some pendingConvo
   \<and> modeOf pendingConvo = DoctorHandoffPending
   \<and> pendingDoctor pendingConvo = Some cardiologist
   \<and> \<not> someIncluded affirmative (toLowerCase yesRuntime text_kham_da)
   \<and> \<not> someIncluded negative (toLowerCase yesRuntime text_kham_da)
   \<and> map_option pendingDoctor
        (conversations (snd (chat yesRuntime demoWorld 2 (ask text_kham_da))) 2)
       = Some (Some dermatologist)
   \<and> dermatologist \<noteq> cardiologist"
  by (simp add: demoWorld_def pendingConvo_def newConversation_def ask_def demoUser_def
      chat_def falsy_def confirmBranch_def genericBranch_def detectDoctorIntent_def callModel_def
      pushMessage_def saveConversation_def findOne_def chatSpecialty_def
      text_kham_da_def tok_co_def tok_ok_def tok_dung_def tok_yes_def tok_khong_def tok_no_def
      tok_tu_choi_def kw_tim_def kw_huyet_ap_def kw_da_def kw_mun_def Tim_mach_def Da_lieu_def
      someIncluded_def affirmative_def negative_def yesRuntime_def lowerAscii_def modeOf_def
      trim_def isWhiteSpace_def cardiologist_def dermatologist_def Let_def)

text \<open>
  Claim C3, amended. When the hand-off is pending and the lower-cased message contains
  neither kind of token, the message is handled by the generic branch; the stored
  conversation stays in the pending mode with a doctor pending; the pending doctor is the
  same one unless the classifier answers yes and the directory has a doctor of the matched
  specialty, in which case that doctor becomes the pending one and the confirmation
  question is the answer; and when the classifier does not lead to an offer and the nurse
  call yields a non-empty answer, that answer is returned and the pending doctor is kept.
\<close>

theorem pending_fallthrough:
  assumes conv: "conversations w i = Some c"
    and mode: "modeOf c = DoctorHandoffPending" and pend: "pendingDoctor c = Some pd"
    and body: "reqUserId body = Some u" "u \<noteq> []" "question body = Some q" "q \<noteq> []"
    and neither: "\<not> someIncluded affirmative (toLowerCase rt q)"
      "\<not> someIncluded negative (toLowerCase rt q)"
  shows "chat rt w i body =
       genericBranch rt w i (c\<lparr>messages := messages c @ [\<lparr>role = User, content = q\<rparr>]\<rparr>) q
         (toLowerCase rt q)
   \<and> (\<exists>c'. conversations (snd (chat rt w i body)) i = Some c'
          \<and> ctype c' = ctype c \<and> modeOf c' = DoctorHandoffPending
          \<and> (pendingDoctor c' = Some pd
             \<or> fst (detectDoctorIntent rt w q) = Some True
               \<and> pendingDoctor c' = findOne (chatSpecialty (toLowerCase rt q)) (doctors w)))
   \<and> (\<forall>d. fst (detectDoctorIntent rt w q) = Some True
          \<and> findOne (chatSpecialty (toLowerCase rt q)) (doctors w) = Some d
        \<longrightarrow> fst (chat rt w i body) =
              ChatOk \<lparr>answer = confirmMsg d,
                     replyMessages = messages c @ [\<lparr>role = User, content = q\<rparr>,
                                                   \<lparr>role = Assistant, content = confirmMsg d\<rparr>],
                     replyDoctor = None, replyPendingDoctor = Some d\<rparr>
            \<and> map_option pendingDoctor (conversations (snd (chat rt w i body)) i) = Some (Some d))
   \<and> (\<forall>wants a. fst (detectDoctorIntent rt w q) = Some wants
          \<and> (wants \<longrightarrow> findOne (chatSpecialty (toLowerCase rt q)) (doctors w) = None)
          \<and> answerText (generateContent rt (calls w @ [triageprompt q]) (aiPrompt q)) = Some a
          \<and> a \<noteq> []
        \<longrightarrow> fst (chat rt w i body) =
              ChatOk \<lparr>answer = a,
                     replyMessages = messages c @ [\<lparr>role = User, content = q\<rparr>,
                                                   \<lparr>role = Assistant, content = a\<rparr>],
                     replyDoctor = None, replyPendingDoctor = None\<rparr>
            \<and> map_option pendingDoctor (conversations (snd (chat rt w i body)) i) = Some (Some pd))"
proof -
  let ?convo = "c\<lparr>messages := messages c @ [\<lparr>role = User, content = q\<rparr>]\<rparr>"
  let ?lower = "toLowerCase rt q"
  let ?w1 = "w\<lparr>calls := calls w @ [triageprompt q]\<rparr>"
  let ?ans = "answerText (generateContent rt (calls w @ [triageprompt q]) (aiPrompt q))"
  have ai: "ctype c = Ai" using mode by (rule pending_is_ai)
  have step: "chat rt w i body = genericBranch rt w i ?convo q ?lower"
    using body conv ai neither by (intro chat_generic) simp_all
  have offer: "fst (chat rt w i body) =
          ChatOk \<lparr>answer = confirmMsg d,
                 replyMessages = messages c @ [\<lparr>role = User, content = q\<rparr>,
                                               \<lparr>role = Assistant, content = confirmMsg d\<rparr>],
                 replyDoctor = None, replyPendingDoctor = Some d\<rparr>
        \<and> conversations (snd (chat rt w i body)) i =
          Some (?convo\<lparr>pendingDoctor := Some d,
                  messages := messages ?convo @ [\<lparr>role = Assistant, content = confirmMsg d\<rparr>]\<rparr>)"
    if "fst (detectDoctorIntent rt w q) = Some True"
      and "findOne (chatSpecialty ?lower) (doctors w) = Some d" for d
    using that by (simp add: step genericBranch_offer)
  have nurse: "fst (chat rt w i body) =
          ChatOk \<lparr>answer = a,
                 replyMessages = messages c @ [\<lparr>role = User, content = q\<rparr>,
                                               \<lparr>role = Assistant, content = a\<rparr>],
                 replyDoctor = None, replyPendingDoctor = None\<rparr>
        \<and> conversations (snd (chat rt w i body)) i =
          Some (?convo\<lparr>messages := messages ?convo @ [\<lparr>role = Assistant, content = a\<rparr>]\<rparr>)"
    if "fst (detectDoctorIntent rt w q) = Some wants"
      and "wants \<longrightarrow> findOne (chatSpecialty ?lower) (doctors w) = None"
      and "answerText (generateContent rt (calls w @ [triageprompt q]) (aiPrompt q)) = Some a"
      and "a \<noteq> []"
    for wants a
  proof -
    have "nurseReply rt ?w1 i ?convo q =
       (ChatOk \<lparr>answer = a, replyMessages = messages ?convo @ [\<lparr>role = Assistant, content = a\<rparr>],
                replyDoctor = None, replyPendingDoctor = None\<rparr>,
        ?w1\<lparr>conversations := (conversations ?w1)(i \<mapsto>
              ?convo\<lparr>messages := messages ?convo @ [\<lparr>role = Assistant, content = a\<rparr>]\<rparr>),
          calls := calls ?w1 @ [aiPrompt q]\<rparr>)"
      using that(3,4) by (intro nurseReply_answer) simp_all
    then show ?thesis
      using that(1,2) by (simp add: step genericBranch_nurse)
  qed
  have unchanged: "conversations (snd (chat rt w i body)) i = Some c"
    if "fst (chat rt w i body) = ServerError"
  proof (cases "fst (detectDoctorIntent rt w q)")
    case None
    then show ?thesis using conv by (simp add: step genericBranch_throws)
  next
    case (Some wants)
    show ?thesis
    proof (cases "wants \<and> findOne (chatSpecialty ?lower) (doctors w) \<noteq> None")
      case True
      then obtain d where "findOne (chatSpecialty ?lower) (doctors w) = Some d" by auto
      with True Some offer [of d] that show ?thesis by simp
    next
      case False
      then have nf: "wants \<longrightarrow> findOne (chatSpecialty ?lower) (doctors w) = None" by auto
      show ?thesis
      proof (cases "?ans = None \<or> ?ans = Some []")
        case True
        then have "nurseReply rt ?w1 i ?convo q = (ServerError, ?w1\<lparr>calls := calls ?w1 @ [aiPrompt q]\<rparr>)"
          by (intro nurseReply_throws) simp
        then show ?thesis using Some nf conv by (simp add: step genericBranch_nurse)
      next
        case False
        then obtain a where "?ans = Some a" "a \<noteq> []" by (cases ?ans) auto
        with nurse [OF \<open>fst (detectDoctorIntent rt w q) = Some wants\<close> nf] that show ?thesis by simp
      qed
    qed
  qed
  have frame: "\<exists>c'. conversations (snd (chat rt w i body)) i = Some c'
          \<and> ctype c' = ctype c \<and> modeOf c' = DoctorHandoffPending
          \<and> (pendingDoctor c' = Some pd
             \<or> fst (detectDoctorIntent rt w q) = Some True
               \<and> pendingDoctor c' = findOne (chatSpecialty ?lower) (doctors w))"
  proof (cases "fst (chat rt w i body) = ServerError")
    case True
    then show ?thesis using unchanged mode pend by simp
  next
    case False
    show ?thesis
    proof (cases "fst (detectDoctorIntent rt w q)")
      case None
      with False show ?thesis by (simp add: step genericBranch_throws)
    next
      case (Some wants)
      show ?thesis
      proof (cases "wants \<and> findOne (chatSpecialty ?lower) (doctors w) \<noteq> None")
        case True
        then obtain d where "findOne (chatSpecialty ?lower) (doctors w) = Some d" by auto
        with True Some offer [of d] ai show ?thesis by (simp add: modeOf_def)
      next
        case nf: False
        then have nf': "wants \<longrightarrow> findOne (chatSpecialty ?lower) (doctors w) = None" by auto
        show ?thesis
        proof (cases "?ans = None \<or> ?ans = Some []")
          case True
          then have "nurseReply rt ?w1 i ?convo q =
              (ServerError, ?w1\<lparr>calls := calls ?w1 @ [aiPrompt q]\<rparr>)"
            by (intro nurseReply_throws) simp
          with False Some nf' show ?thesis by (simp add: step genericBranch_nurse)
        next
          case noerr: False
          then obtain a where "?ans = Some a" "a \<noteq> []" by (cases ?ans) auto
          with nurse [OF \<open>fst (detectDoctorIntent rt w q) = Some wants\<close> nf'] ai pend
          show ?thesis by (simp add: modeOf_def)
        qed
      qed
    qed
  qed
  show ?thesis
  proof (intro conjI allI impI)
    show "chat rt w i body = genericBranch rt w i ?convo q ?lower" by (rule step)
    show "\<exists>c'. conversations (snd (chat rt w i body)) i = Some c'
          \<and> ctype c' = ctype c \<and> modeOf c' = DoctorHandoffPending
          \<and> (pendingDoctor c' = Some pd
             \<or> fst (detectDoctorIntent rt w q) = Some True
               \<and> pendingDoctor c' = findOne (chatSpecialty ?lower) (doctors w))"
      by (rule frame)
  next
    fix d
    assume "fst (detectDoctorIntent rt w q) = Some True
          \<and> findOne (chatSpecialty ?lower) (doctors w) = Some d"
    with offer [of d]
    show "fst (chat rt w i body) =
              ChatOk \<lparr>answer = confirmMsg d,
                     replyMessages = messages c @ [\<lparr>role = User, content = q\<rparr>,
                                                   \<lparr>role = Assistant, content = confirmMsg d\<rparr>],
                     replyDoctor = None, replyPendingDoctor = Some d\<rparr>"
      and "map_option pendingDoctor (conversations (snd (chat rt w i body)) i) = Some (Some d)"
      by simp_all
  next
    fix wants a
    assume "fst (detectDoctorIntent rt w q) = Some wants
          \<and> (wants \<longrightarrow> findOne (chatSpecialty ?lower) (doctors w) = None)
          \<and> answerText (generateContent rt (calls w @ [triageprompt q]) (aiPrompt q)) = Some a
          \<and> a \<noteq> []"
    with nurse [of wants a] pend
    show "fst (chat rt w i body) =
              ChatOk \<lparr>answer = a,
                     replyMessages = messages c @ [\<lparr>role = User, content = q\<rparr>,
                                                   \<lparr>role = Assistant, content = a\<rparr>],
                     replyDoctor = None, replyPendingDoctor = None\<rparr>"
      and "map_option pendingDoctor (conversations (snd (chat rt w i body)) i) = Some (Some pd)"
      by simp_all
  qed
qed

text \<open>
  Claim C3, amended, at two inputs for conversation 2: the message "met" with a classifier
  that answers "no" and a nurse call that resolves without a response, where the cardiologist
  stays pending; and the message "kham da" with a classifier that answers "yes", where the
  dermatologist becomes the pending doctor.
\<close>

theorem pending_fallthrough_witness:
  "conversations demoWorld 2 = Some pendingConvo
   \<and> modeOf pendingConvo = DoctorHandoffPending
   \<and> pendingDoctor pendingConvo = Some cardiologist
   \<and> \<not> someIncluded affirmative (toLowerCase silentRuntime text_met)
   \<and> \<not> someIncluded negative (toLowerCase silentRuntime text_met)
   \<and> fst (detectDoctorIntent silentRuntime demoWorld text_met) = Some False
   \<and> answerText (generateContent silentRuntime
         (calls demoWorld @ [triageprompt text_met]) (aiPrompt text_met)) = Some noResponseText
   \<and> fst (chat silentRuntime demoWorld 2 (ask text_met)) =
        ChatOk \<lparr>answer = noResponseText,
               replyMessages = [\<lparr>role = User, content = text_met\<rparr>,
                                \<lparr>role = Assistant, content = noResponseText\<rparr>],
               replyDoctor = None, replyPendingDoctor = None\<rparr>
   \<and> map_option pendingDoctor (conversations (snd (chat silentRuntime demoWorld 2 (ask text_met))) 2)
        = Some (Some cardiologist)
   \<and> \<not> someIncluded affirmative (toLowerCase yesRuntime text_kham_da)
   \<and> \<not> someIncluded negative (toLowerCase yesRuntime text_kham_da)
   \<and> fst (detectDoctorIntent yesRuntime demoWorld text_kham_da) = Some True
   \<and> findOne (chatSpecialty (toLowerCase yesRuntime text_kham_da)) (doctors demoWorld)
        = Some dermatologist
   \<and> fst (chat yesRuntime demoWorld 2 (ask text_kham_da)) =
        ChatOk \<lparr>answer = confirmMsg dermatologist,
               replyMessages = [\<lparr>role = User, content = text_kham_da\<rparr>,
                                \<lparr>role = Assistant, content = confirmMsg dermatologist\<rparr>],
               replyDoctor = None, replyPendingDoctor = Some dermatologist\<rparr>
   \<and> map_option pendingDoctor
        (conversations (snd (chat yesRuntime demoWorld 2 (ask text_kham_da))) 2)
        = Some (Some dermatologist)"
proof -
  have conv: "conversations demoWorld 2 = Some pendingConvo"
    by (simp add: demoWorld_def)
  have mode: "modeOf pendingConvo = DoctorHandoffPending"
    and pend: "pendingDoctor pendingConvo = Some cardiologist"
    and msgs: "messages pendingConvo = []"
    by (simp_all add: pendingConvo_def newConversation_def modeOf_def)
  have body: "reqUserId (ask text_met) = Some demoUser" "demoUser \<noteq> []"
    "question (ask text_met) = Some text_met" "text_met \<noteq> []"
    by (simp_all add: ask_def demoUser_def text_met_def)
  have neither: "\<not> someIncluded affirmative (toLowerCase silentRuntime text_met)"
    "\<not> someIncluded negative (toLowerCase silentRuntime text_met)"
    by (simp_all add: someIncluded_def affirmative_def negative_def silentRuntime_def
        lowerAscii_def text_met_def tok_co_def tok_ok_def tok_dung_def tok_yes_def
        tok_khong_def tok_no_def tok_tu_choi_def)
  have no: "fst (detectDoctorIntent silentRuntime demoWorld text_met) = Some False"
    by (simp add: detect_fst silentRuntime_def demoWorld_def trim_def isWhiteSpace_def
        lowerAscii_def tok_no_def tok_yes_def)
  have silent: "answerText (generateContent silentRuntime
        (calls demoWorld @ [triageprompt text_met]) (aiPrompt text_met)) = Some noResponseText"
    by (simp add: silentRuntime_def answerText_def)
  from pending_fallthrough [OF conv mode pend body neither]
  have "fst (detectDoctorIntent silentRuntime demoWorld text_met) = Some False
        \<and> (False \<longrightarrow> findOne (chatSpecialty (toLowerCase silentRuntime text_met))
               (doctors demoWorld) = None)
        \<and> answerText (generateContent silentRuntime
             (calls demoWorld @ [triageprompt text_met]) (aiPrompt text_met)) = Some noResponseText
        \<and> noResponseText \<noteq> []
     \<longrightarrow> fst (chat silentRuntime demoWorld 2 (ask text_met)) =
           ChatOk \<lparr>answer = noResponseText,
                  replyMessages = messages pendingConvo @ [\<lparr>role = User, content = text_met\<rparr>,
                                   \<lparr>role = Assistant, content = noResponseText\<rparr>],
                  replyDoctor = None, replyPendingDoctor = None\<rparr>
         \<and> map_option pendingDoctor
             (conversations (snd (chat silentRuntime demoWorld 2 (ask text_met))) 2)
           = Some (Some cardiologist)"
    by blast
  with no silent msgs noResponseText_nonempty
  have kept: "fst (chat silentRuntime demoWorld 2 (ask text_met)) =
        ChatOk \<lparr>answer = noResponseText,
               replyMessages = [\<lparr>role = User, content = text_met\<rparr>,
                                \<lparr>role = Assistant, content = noResponseText\<rparr>],
               replyDoctor = None, replyPendingDoctor = None\<rparr>"
    "map_option pendingDoctor (conversations (snd (chat silentRuntime demoWorld 2 (ask text_met))) 2)
        = Some (Some cardiologist)"
    by simp_all
  have body': "reqUserId (ask text_kham_da) = Some demoUser"
    "question (ask text_kham_da) = Some text_kham_da" "text_kham_da \<noteq> []"
    by (simp_all add: ask_def text_kham_da_def)
  have neither': "\<not> someIncluded affirmative (toLowerCase yesRuntime text_kham_da)"
    "\<not> someIncluded negative (toLowerCase yesRuntime text_kham_da)"
    by (simp_all add: someIncluded_def affirmative_def negative_def yesRuntime_def
        lowerAscii_def text_kham_da_def tok_co_def tok_ok_def tok_dung_def tok_yes_def
        tok_khong_def tok_no_def tok_tu_choi_def)
  have wants: "fst (detectDoctorIntent yesRuntime demoWorld text_kham_da) = Some True"
    by (simp add: detect_fst yesRuntime_def demoWorld_def trim_def isWhiteSpace_def
        lowerAscii_def tok_yes_def)
  have found: "findOne (chatSpecialty (toLowerCase yesRuntime text_kham_da)) (doctors demoWorld)
      = Some dermatologist"
    by (simp add: findOne_def chatSpecialty_def yesRuntime_def lowerAscii_def text_kham_da_def
        kw_tim_def kw_huyet_ap_def kw_da_def demoWorld_def cardiologist_def dermatologist_def
        Tim_mach_def Da_lieu_def)
  from pending_fallthrough [OF conv mode pend body'(1) body(2) body'(2,3) neither']
  have "fst (detectDoctorIntent yesRuntime demoWorld text_kham_da) = Some True
        \<and> findOne (chatSpecialty (toLowerCase yesRuntime text_kham_da)) (doctors demoWorld)
            = Some dermatologist
     \<longrightarrow> fst (chat yesRuntime demoWorld 2 (ask text_kham_da)) =
           ChatOk \<lparr>answer = confirmMsg dermatologist,
                  replyMessages = messages pendingConvo @ [\<lparr>role = User, content = text_kham_da\<rparr>,
                                   \<lparr>role = Assistant, content = confirmMsg dermatologist\<rparr>],
                  replyDoctor = None, replyPendingDoctor = Some dermatologist\<rparr>
         \<and> map_option pendingDoctor
             (conversations (snd (chat yesRuntime demoWorld 2 (ask text_kham_da))) 2)
           = Some (Some dermatologist)"
    by blast
  with wants found msgs
  have replaced: "fst (chat yesRuntime demoWorld 2 (ask text_kham_da)) =
        ChatOk \<lparr>answer = confirmMsg dermatologist,
               replyMessages = [\<lparr>role = User, content = text_kham_da\<rparr>,
                                \<lparr>role = Assistant, content = confirmMsg dermatologist\<rparr>],
               replyDoctor = None, replyPendingDoctor = Some dermatologist\<rparr>"
    "map_option pendingDoctor
        (conversations (snd (chat yesRuntime demoWorld 2 (ask text_kham_da))) 2)
        = Some (Some dermatologist)"
    by simp_all
  from conv mode pend neither no silent kept neither' wants found replaced
  show ?thesis by blast
qed

section \<open>The specialty matcher\<close>

text \<open>
  The two rule chains give different specialties exactly on the texts that hold a keyword of
  the group tim / huyet ap and a keyword of the group da / mun.
\<close>

lemma specialty_chains_differ:
  "chatSpecialty lower \<noteq> triageSpecialty lower \<longleftrightarrow>
     (includesStr lower kw_tim \<or> includesStr lower kw_huyet_ap)
     \<and> (includesStr lower kw_da \<or> includesStr lower kw_mun)"
proof -
  have "Tim_mach \<noteq> Da_lieu" by (simp add: Tim_mach_def Da_lieu_def)
  then show ?thesis
    unfolding chatSpecialty_def triageSpecialty_def by presburger
qed

text \<open>
  Claim C4. The claim asks for one order of the keyword groups, tim / huyet ap first,
  wherever the matcher is applied. The chat handler has this order, but \<^verbatim>\<open>triageRoute\<close> and
  the temporary chat try da / mun first. On the message "Tim, da", whose lower-cased form
  holds both "tim" and "da", the chat handler offers the doctor of "Tim mach", while
  \<^verbatim>\<open>POST /triage\<close> and the temporary chat record "Da lieu".
\<close>

theorem triage_order_divergence:
  "includesStr (toLowerCase yesRuntime text_tim_da) kw_tim
   \<and> includesStr (toLowerCase yesRuntime text_tim_da) kw_da
   \<and> fst (chat yesRuntime demoWorld 1 (ask text_tim_da)) =
       ChatOk \<lparr>answer = confirmMsg cardiologist,
              replyMessages = [\<lparr>role = User, content = text_tim_da\<rparr>,
                               \<lparr>role = Assistant, content = confirmMsg cardiologist\<rparr>],
              replyDoctor = None, replyPendingDoctor = Some cardiologist\<rparr>
   \<and> specialty cardiologist = Tim_mach
   \<and> fst (triageRoute yesRuntime demoWorld
           \<lparr>triageReqUserId = Some demoUser, reqSymptoms = Some text_tim_da\<rparr>) =
       TriageOk \<lparr>triageUserId = demoUser, symptoms = text_tim_da, suggestedSpecialty = Da_lieu\<rparr>
         dermatologist
   \<and> fst (tempChat yesRuntime demoWorld 1 (ask text_tim_da)) =
       TempChatOk \<lparr>tempAnswer = tok_ok,
              tempReplyMessages = [\<lparr>role = User, content = text_tim_da\<rparr>,
                                   \<lparr>role = Assistant, content = tok_ok\<rparr>],
              replyTriage = Some \<lparr>triageUserId = demoUser, symptoms = text_tim_da,
                                  suggestedSpecialty = Da_lieu\<rparr>,
              tempReplyDoctor = Some dermatologist\<rparr>
   \<and> Da_lieu \<noteq> Tim_mach"
proof -
  have lower: "toLowerCase yesRuntime text_tim_da = [0x74, 0x69, 0x6D, 0x2C, 0x20, 0x64, 0x61]"
    by (simp add: yesRuntime_def lowerAscii_def text_tim_da_def)
  have both: "includesStr (toLowerCase yesRuntime text_tim_da) kw_tim"
    "includesStr (toLowerCase yesRuntime text_tim_da) kw_da"
    by (simp_all add: lower kw_tim_def kw_da_def)
  have chain: "chatSpecialty (toLowerCase yesRuntime text_tim_da) = Tim_mach"
    "triageSpecialty (toLowerCase yesRuntime text_tim_da) = Da_lieu"
    using both by (simp_all add: chatSpecialty_def triageSpecialty_def)
  have dir: "findOne Tim_mach (doctors demoWorld) = Some cardiologist"
    "findOne Da_lieu (doctors demoWorld) = Some dermatologist"
    "specialty cardiologist = Tim_mach" "Da_lieu \<noteq> Tim_mach"
    by (simp_all add: findOne_def demoWorld_def cardiologist_def dermatologist_def
        Tim_mach_def Da_lieu_def)
  have body: "reqUserId (ask text_tim_da) = Some demoUser" "demoUser \<noteq> []"
    "question (ask text_tim_da) = Some text_tim_da" "text_tim_da \<noteq> []"
    by (simp_all add: ask_def demoUser_def text_tim_da_def)
  have conv: "conversations demoWorld 1 = Some genericConvo"
    and tconv: "tempConversations demoWorld 1
      = Some \<lparr>tempUserId = demoUser, tempMessages = [], systemInstructions = []\<rparr>"
    and calls: "calls demoWorld = []" and log: "triages demoWorld = []"
    by (simp_all add: demoWorld_def)
  have fields: "ctype genericConvo = Ai" "pendingDoctor genericConvo = None"
    "messages genericConvo = []"
    by (simp_all add: genericConvo_def newConversation_def)
  have yes: "fst (detectDoctorIntent yesRuntime demoWorld text_tim_da) = Some True"
    by (simp add: detect_fst yesRuntime_def demoWorld_def trim_def isWhiteSpace_def
        lowerAscii_def tok_yes_def)
  have "chat yesRuntime demoWorld 1 (ask text_tim_da) =
      genericBranch yesRuntime demoWorld 1
        (genericConvo\<lparr>messages := messages genericConvo @ [\<lparr>role = User, content = text_tim_da\<rparr>]\<rparr>)
        text_tim_da (toLowerCase yesRuntime text_tim_da)"
    using body conv fields by (intro chat_generic) simp_all
  moreover have "findOne (chatSpecialty (toLowerCase yesRuntime text_tim_da)) (doctors demoWorld)
      = Some cardiologist"
    using chain dir by simp
  ultimately have one: "fst (chat yesRuntime demoWorld 1 (ask text_tim_da)) =
       ChatOk \<lparr>answer = confirmMsg cardiologist,
              replyMessages = [\<lparr>role = User, content = text_tim_da\<rparr>,
                               \<lparr>role = Assistant, content = confirmMsg cardiologist\<rparr>],
              replyDoctor = None, replyPendingDoctor = Some cardiologist\<rparr>"
    using fields by (simp add: genericBranch_offer [OF yes])
  have two: "fst (triageRoute yesRuntime demoWorld
           \<lparr>triageReqUserId = Some demoUser, reqSymptoms = Some text_tim_da\<rparr>) =
       TriageOk \<lparr>triageUserId = demoUser, symptoms = text_tim_da, suggestedSpecialty = Da_lieu\<rparr>
         dermatologist"
    using body(2,4) chain dir
    by (simp add: triageRoute_def falsy_def saveTriage_def Let_def)
  have yes2: "detectDoctorIntent2 yesRuntime demoWorld text_tim_da
      = (Some True, demoWorld\<lparr>calls := calls demoWorld @ [triageprompt text_tim_da]\<rparr>)"
    using body(4) detect2_snd [of text_tim_da yesRuntime demoWorld]
    by (simp add: prod_eq_iff detect2_fst yesRuntime_def demoWorld_def trim_def
        isWhiteSpace_def lowerAscii_def tok_yes_def)
  have next_call: "generateContent yesRuntime [triageprompt text_tim_da] p = Text tok_ok" for p
    by (simp add: yesRuntime_def)
  have ok: "tok_ok \<noteq> []" by (simp add: tok_ok_def)
  have three: "fst (tempChat yesRuntime demoWorld 1 (ask text_tim_da)) =
       TempChatOk \<lparr>tempAnswer = tok_ok,
              tempReplyMessages = [\<lparr>role = User, content = text_tim_da\<rparr>,
                                   \<lparr>role = Assistant, content = tok_ok\<rparr>],
              replyTriage = Some \<lparr>triageUserId = demoUser, symptoms = text_tim_da,
                                  suggestedSpecialty = Da_lieu\<rparr>,
              tempReplyDoctor = Some dermatologist\<rparr>"
    using tempChat_valid [OF body tconv, of yesRuntime] yes2 calls next_call ok chain dir
    by (simp add: localTriage_def saveTriage_def answerText2_def Let_def)
  from both one two three dir show ?thesis by simp
qed

section \<open>The intent classifier\<close>

text \<open>
  On a text of the model both classifiers return whether the trimmed, lower-cased text
  contains "yes", and they return true in no other case. The classifier of the second file
  also returns false when the result lacks the response or its \<^verbatim>\<open>text\<close> method, and, without
  a call, on an empty message.
\<close>

lemma detectDoctorIntent_on_text:
  "(generateContent rt (calls w) (triageprompt text) = Text s
      \<longrightarrow> fst (detectDoctorIntent rt w text) = Some (includesStr (toLowerCase rt (trim s)) tok_yes))
   \<and> (text \<noteq> [] \<and> generateContent rt (calls w) (triageprompt text) = Text s
      \<longrightarrow> fst (detectDoctorIntent2 rt w text) = Some (includesStr (toLowerCase rt (trim s)) tok_yes))
   \<and> (toLowerCase rt [] = [] \<and> generateContent rt (calls w) (triageprompt text) = Text []
      \<longrightarrow> fst (detectDoctorIntent rt w text) = Some False
        \<and> fst (detectDoctorIntent2 rt w text) = Some False)
   \<and> (fst (detectDoctorIntent rt w text) = Some True \<or> fst (detectDoctorIntent2 rt w text) = Some True
      \<longrightarrow> (\<exists>s. generateContent rt (calls w) (triageprompt text) = Text s
               \<and> includesStr (toLowerCase rt (trim s)) tok_yes))
   \<and> (generateContent rt (calls w) (triageprompt text) \<in> {NoResult, NoResponse, NoTextFn}
      \<longrightarrow> fst (detectDoctorIntent2 rt w text) = Some False)
   \<and> (text = [] \<longrightarrow> detectDoctorIntent2 rt w text = (Some False, w))"
proof -
  let ?r = "generateContent rt (calls w) (triageprompt text)"
  have one: "fst (detectDoctorIntent rt w text) = Some (includesStr (toLowerCase rt (trim s)) tok_yes)"
    if "?r = Text s" for s
    using that by (simp add: detect_fst)
  have two: "fst (detectDoctorIntent2 rt w text) = Some (includesStr (toLowerCase rt (trim s)) tok_yes)"
    if "text \<noteq> []" "?r = Text s" for s
    using that by (simp add: detect2_fst)
  have silent: "detectDoctorIntent2 rt w text = (Some False, w)" if "text = []"
    using that by (simp add: detectDoctorIntent2_def)
  have empty: "fst (detectDoctorIntent rt w text) = Some False
        \<and> fst (detectDoctorIntent2 rt w text) = Some False"
    if "toLowerCase rt [] = []" "?r = Text []"
  proof (cases "text = []")
    case True
    with that silent show ?thesis by (simp add: detect_fst trim_def tok_yes_def)
  next
    case False
    with that show ?thesis by (simp add: detect_fst detect2_fst trim_def tok_yes_def)
  qed
  have only1: "\<exists>s. ?r = Text s \<and> includesStr (toLowerCase rt (trim s)) tok_yes"
    if "fst (detectDoctorIntent rt w text) = Some True"
    using that by (cases ?r) (simp_all add: detect_fst)
  have only2: "\<exists>s. ?r = Text s \<and> includesStr (toLowerCase rt (trim s)) tok_yes"
    if "fst (detectDoctorIntent2 rt w text) = Some True"
  proof (cases "text = []")
    case True
    with that silent show ?thesis by simp
  next
    case False
    with that show ?thesis by (cases ?r) (simp_all add: detect2_fst)
  qed
  have guarded: "fst (detectDoctorIntent2 rt w text) = Some False"
    if "?r \<in> {NoResult, NoResponse, NoTextFn}"
  proof (cases "text = []")
    case True
    with silent show ?thesis by simp
  next
    case False
    with that show ?thesis by (auto simp: detect2_fst)
  qed
  from one two silent empty only1 only2 guarded show ?thesis by blast
qed

text \<open>
  Claim C5. The claim asks for false, not a failure, on a malformed result of the model. The
  classifier of the first file reads \<^verbatim>\<open>result.response.text()\<close> without a guard: when the
  result has no response it raises, and the chat handler answers 500. On the same result
  the classifier of the second file returns false, and the first file's own reads of the
  answer give the fixed text.
\<close>

theorem detectDoctorIntent_unguarded:
  "generateContent emptyRuntime (calls demoWorld) (triageprompt text_met) = NoResponse
   \<and> fst (detectDoctorIntent emptyRuntime demoWorld text_met) = None
   \<and> fst (detectDoctorIntent emptyRuntime demoWorld text_met) \<noteq> Some False
   \<and> fst (chat emptyRuntime demoWorld 1 (ask text_met)) = ServerError
   \<and> fst (detectDoctorIntent2 emptyRuntime demoWorld text_met) = Some False
   \<and> answerText NoResponse = Some noResponseText"
proof -
  have gen: "generateContent emptyRuntime (calls demoWorld) (triageprompt text_met) = NoResponse"
    by (simp add: emptyRuntime_def)
  then have raises: "fst (detectDoctorIntent emptyRuntime demoWorld text_met) = None"
    by (simp add: detect_fst)
  have body: "reqUserId (ask text_met) = Some demoUser" "demoUser \<noteq> []"
    "question (ask text_met) = Some text_met" "text_met \<noteq> []"
    by (simp_all add: ask_def demoUser_def text_met_def)
  have conv: "conversations demoWorld 1 = Some genericConvo"
    by (simp add: demoWorld_def)
  have fields: "ctype genericConvo = Ai" "pendingDoctor genericConvo = None"
    by (simp_all add: genericConvo_def newConversation_def)
  have "chat emptyRuntime demoWorld 1 (ask text_met) =
      genericBranch emptyRuntime demoWorld 1
        (genericConvo\<lparr>messages := messages genericConvo @ [\<lparr>role = User, content = text_met\<rparr>]\<rparr>)
        text_met (toLowerCase emptyRuntime text_met)"
    using body conv fields by (intro chat_generic) simp_all
  then have failed: "fst (chat emptyRuntime demoWorld 1 (ask text_met)) = ServerError"
    by (simp add: genericBranch_throws [OF raises])
  have guarded: "fst (detectDoctorIntent2 emptyRuntime demoWorld text_met) = Some False"
    using body(4) gen by (simp add: detect2_fst)
  have "answerText NoResponse = Some noResponseText" by (simp add: answerText_def)
  with gen raises failed guarded show ?thesis by simp
qed

section \<open>The generic branch\<close>

text \<open>
  The classifier's prompt and the nurse's prompt differ in their ninth code unit, whatever
  the message.
\<close>

lemma prompts_differ: "triageprompt q \<noteq> aiPrompt q'"
proof
  assume "triageprompt q = aiPrompt q'"
  then have "take 9 (triageprompt q) = take 9 (aiPrompt q')" by simp
  then show False
    by (simp add: triageprompt_def aiPrompt_def triageprompt_0_def aiPrompt_0_def)
qed

text \<open>
  Claim C6. In generic mode, when the classifier returns true and the directory has a doctor
  of the matched specialty, that doctor becomes the pending one, the conversation is in the
  pending mode, one assistant message asking for confirmation (built from the doctor's
  specialty and name) is appended after the user's message and returned, and the only prompt
  sent is the classifier's: the nurse's prompt is not sent.
\<close>

theorem generic_offer:
  assumes conv: "conversations w i = Some c" and mode: "modeOf c = Generic"
    and body: "reqUserId body = Some u" "u \<noteq> []" "question body = Some q" "q \<noteq> []"
    and wants: "fst (detectDoctorIntent rt w q) = Some True"
    and found: "findOne (chatSpecialty (toLowerCase rt q)) (doctors w) = Some d"
  shows "chat rt w i body =
     (ChatOk \<lparr>answer = confirmMsg d,
              replyMessages = messages c @ [\<lparr>role = User, content = q\<rparr>,
                                            \<lparr>role = Assistant, content = confirmMsg d\<rparr>],
              replyDoctor = None, replyPendingDoctor = Some d\<rparr>,
      w\<lparr>conversations := (conversations w)(i \<mapsto>
           c\<lparr>pendingDoctor := Some d,
             messages := messages c @ [\<lparr>role = User, content = q\<rparr>,
                                       \<lparr>role = Assistant, content = confirmMsg d\<rparr>]\<rparr>),
        calls := calls w @ [triageprompt q]\<rparr>)
   \<and> modeOf (c\<lparr>pendingDoctor := Some d,
             messages := messages c @ [\<lparr>role = User, content = q\<rparr>,
                                       \<lparr>role = Assistant, content = confirmMsg d\<rparr>]\<rparr>)
       = DoctorHandoffPending
   \<and> calls (snd (chat rt w i body)) = calls w @ [triageprompt q]
   \<and> triageprompt q \<noteq> aiPrompt q
   \<and> confirmMsg d = confirmMsg_0 @ specialty d @ confirmMsg_1 @ name d @ confirmMsg_2"
proof -
  from mode have ai: "ctype c = Ai" and nopend: "pendingDoctor c = None"
    using generic_is_ai by blast+
  have "chat rt w i body =
      genericBranch rt w i (c\<lparr>messages := messages c @ [\<lparr>role = User, content = q\<rparr>]\<rparr>) q
        (toLowerCase rt q)"
    using body conv ai nopend by (intro chat_generic) simp_all
  then show ?thesis
    using wants found ai prompts_differ [of q q]
    by (simp add: genericBranch_offer modeOf_def confirmMsg_def)
qed

text \<open>
  Claim C6 at an input: conversation 1 of the sample store, the message "kham da", a model
  that answers "yes".
\<close>

theorem generic_offer_witness:
  "conversations demoWorld 1 = Some genericConvo
   \<and> modeOf genericConvo = Generic
   \<and> fst (detectDoctorIntent yesRuntime demoWorld text_kham_da) = Some True
   \<and> findOne (chatSpecialty (toLowerCase yesRuntime text_kham_da)) (doctors demoWorld)
      = Some dermatologist
   \<and> fst (chat yesRuntime demoWorld 1 (ask text_kham_da)) =
       ChatOk \<lparr>answer = confirmMsg dermatologist,
              replyMessages = [\<lparr>role = User, content = text_kham_da\<rparr>,
                               \<lparr>role = Assistant, content = confirmMsg dermatologist\<rparr>],
              replyDoctor = None, replyPendingDoctor = Some dermatologist\<rparr>
   \<and> map_option pendingDoctor
        (conversations (snd (chat yesRuntime demoWorld 1 (ask text_kham_da))) 1)
      = Some (Some dermatologist)
   \<and> calls (snd (chat yesRuntime demoWorld 1 (ask text_kham_da))) = [triageprompt text_kham_da]"
proof -
  have conv: "conversations demoWorld 1 = Some genericConvo"
    by (simp add: demoWorld_def)
  have mode: "modeOf genericConvo = Generic" and msgs: "messages genericConvo = []"
    by (simp_all add: genericConvo_def newConversation_def modeOf_def)
  have body: "reqUserId (ask text_kham_da) = Some demoUser" "demoUser \<noteq> []"
    "question (ask text_kham_da) = Some text_kham_da" "text_kham_da \<noteq> []"
    by (simp_all add: ask_def demoUser_def text_kham_da_def)
  have wants: "fst (detectDoctorIntent yesRuntime demoWorld text_kham_da) = Some True"
    by (simp add: detect_fst yesRuntime_def demoWorld_def trim_def isWhiteSpace_def
        lowerAscii_def tok_yes_def)
  have found: "findOne (chatSpecialty (toLowerCase yesRuntime text_kham_da)) (doctors demoWorld)
      = Some dermatologist"
    by (simp add: findOne_def chatSpecialty_def yesRuntime_def lowerAscii_def text_kham_da_def
        kw_tim_def kw_huyet_ap_def kw_da_def demoWorld_def cardiologist_def dermatologist_def
        Tim_mach_def Da_lieu_def)
  have calls: "calls demoWorld = []" by (simp add: demoWorld_def)
  from generic_offer [OF conv mode body wants found] conv mode wants found msgs calls
  show ?thesis by simp
qed

section \<open>The triage log\<close>

text \<open>
  No step of the chat handler of the first file writes to the triage log.
\<close>

lemma nurseReply_triages: "triages (snd (nurseReply rt w i convo q)) = triages w"
  by (simp add: nurseReply_def callModel_def saveConversation_def Let_def split: option.splits)

lemma doctorBranch_triages: "triages (snd (doctorBranch rt w i convo d q)) = triages w"
  by (simp add: doctorBranch_def callModel_def saveConversation_def Let_def split: option.splits)

lemma genericBranch_triages: "triages (snd (genericBranch rt w i convo q lower)) = triages w"
proof (cases "fst (detectDoctorIntent rt w q)")
  case None
  then show ?thesis by (simp add: genericBranch_throws)
next
  case (Some wants)
  show ?thesis
  proof (cases "wants \<and> findOne (chatSpecialty lower) (doctors w) \<noteq> None")
    case True
    then obtain d where "findOne (chatSpecialty lower) (doctors w) = Some d" by auto
    with True Some show ?thesis by (simp add: genericBranch_offer)
  next
    case False
    then have "wants \<longrightarrow> findOne (chatSpecialty lower) (doctors w) = None" by auto
    with Some show ?thesis by (simp add: genericBranch_nurse nurseReply_triages)
  qed
qed

lemma chat_triages: "triages (snd (chat rt w i body)) = triages w"
proof (cases "falsy (reqUserId body) \<or> falsy (question body)")
  case True
  then show ?thesis by (auto simp: chat_def)
next
  case False
  then obtain u q where body: "reqUserId body = Some u" "u \<noteq> []" "question body = Some q" "q \<noteq> []"
    by (auto simp: falsy_def split: option.splits)
  show ?thesis
  proof (cases "conversations w i")
    case None
    with body show ?thesis by (simp add: chat_def falsy_def)
  next
    case (Some c)
    show ?thesis
      unfolding chat_valid [OF body Some]
      by (simp add: saveConversation_def doctorBranch_triages genericBranch_triages
          split: option.splits prod.splits convType.splits)
  qed
qed

text \<open>
  The temporary chat of the second file, whenever its classifier returns true, appends one
  triage record with the user, the message and the specialty matched from the lower-cased
  message, whether or not a doctor is found and whatever the later model call or save does.
\<close>

lemma tempChat_triage_written:
  assumes "reqUserId body = Some u" "u \<noteq> []" "question body = Some q" "q \<noteq> []"
    and "tempConversations w i = Some tc"
    and "fst (detectDoctorIntent2 rt w q) = Some True"
  shows "triages (snd (tempChat rt w i body)) =
          triages w @ [\<lparr>triageUserId = u, symptoms = q,
                        suggestedSpecialty = triageSpecialty (toLowerCase rt q)\<rparr>]"
proof -
  have "detectDoctorIntent2 rt w q = (Some True, w\<lparr>calls := calls w @ [triageprompt q]\<rparr>)"
    using assms(4,6) detect2_snd [of q rt w] by (simp add: prod_eq_iff)
  then show ?thesis
    by (simp add: tempChat_valid [OF assms(1-5)] localTriage_def saveTriage_def Let_def
        split: option.splits)
qed

text \<open>
  Claim C7. The claim asks for a triage record whenever the classifier of the generic branch
  returns true. The chat handler of the first file matches the specialty and looks the
  doctor up without writing one: on the message "kham da" to the generic conversation 1 the
  classifier returns true and the log is still empty after the request, while the temporary
  chat of the second file, on the same message, appends the record with "Da lieu".
\<close>

theorem chat_writes_no_triage:
  "conversations demoWorld 1 = Some genericConvo
   \<and> modeOf genericConvo = Generic
   \<and> fst (detectDoctorIntent yesRuntime demoWorld text_kham_da) = Some True
   \<and> triages demoWorld = []
   \<and> triages (snd (chat yesRuntime demoWorld 1 (ask text_kham_da))) = []
   \<and> fst (detectDoctorIntent2 yesRuntime demoWorld text_kham_da) = Some True
   \<and> triages (snd (tempChat yesRuntime demoWorld 1 (ask text_kham_da))) =
       [\<lparr>triageUserId = demoUser, symptoms = text_kham_da, suggestedSpecialty = Da_lieu\<rparr>]"
proof -
  have conv: "conversations demoWorld 1 = Some genericConvo"
    and tconv: "tempConversations demoWorld 1
      = Some \<lparr>tempUserId = demoUser, tempMessages = [], systemInstructions = []\<rparr>"
    and none: "triages demoWorld = []"
    by (simp_all add: demoWorld_def)
  have mode: "modeOf genericConvo = Generic"
    by (simp add: genericConvo_def newConversation_def modeOf_def)
  have body: "reqUserId (ask text_kham_da) = Some demoUser" "demoUser \<noteq> []"
    "question (ask text_kham_da) = Some text_kham_da" "text_kham_da \<noteq> []"
    by (simp_all add: ask_def demoUser_def text_kham_da_def)
  have wants: "fst (detectDoctorIntent yesRuntime demoWorld text_kham_da) = Some True"
    by (simp add: detect_fst yesRuntime_def demoWorld_def trim_def isWhiteSpace_def
        lowerAscii_def tok_yes_def)
  have wants2: "fst (detectDoctorIntent2 yesRuntime demoWorld text_kham_da) = Some True"
    using body(4)
    by (simp add: detect2_fst yesRuntime_def demoWorld_def trim_def isWhiteSpace_def
        lowerAscii_def tok_yes_def)
  have sp: "triageSpecialty (toLowerCase yesRuntime text_kham_da) = Da_lieu"
    by (simp add: triageSpecialty_def yesRuntime_def lowerAscii_def text_kham_da_def kw_da_def)
  have silent: "triages (snd (chat yesRuntime demoWorld 1 (ask text_kham_da))) = []"
    using none by (simp add: chat_triages)
  have written: "triages (snd (tempChat yesRuntime demoWorld 1 (ask text_kham_da))) =
       [\<lparr>triageUserId = demoUser, symptoms = text_kham_da, suggestedSpecialty = Da_lieu\<rparr>]"
    using tempChat_triage_written [OF body tconv wants2] none sp by simp
  from conv mode wants none silent wants2 written show ?thesis by simp
qed

section \<open>Effect of a request on the conversation\<close>

lemma nurseReply_effect:
  assumes "nurseReply rt w i convo q = (r, w')"
  shows "(r = ServerError \<and> conversations w' = conversations w) \<or>
     (\<exists>a. r = ChatOk \<lparr>answer = a,
                 replyMessages = messages convo @ [\<lparr>role = Assistant, content = a\<rparr>],
                 replyDoctor = None, replyPendingDoctor = None\<rparr>
        \<and> conversations w' = (conversations w)(i \<mapsto>
              convo\<lparr>messages := messages convo @ [\<lparr>role = Assistant, content = a\<rparr>]\<rparr>))"
proof (cases "answerText (generateContent rt (calls w) (aiPrompt q)) = None
    \<or> answerText (generateContent rt (calls w) (aiPrompt q)) = Some []")
  case True
  with assms show ?thesis by (auto simp: nurseReply_throws)
next
  case False
  then obtain a where "answerText (generateContent rt (calls w) (aiPrompt q)) = Some a" "a \<noteq> []"
    by (cases "answerText (generateContent rt (calls w) (aiPrompt q))") auto
  with assms show ?thesis by (auto simp: nurseReply_answer)
qed

lemma doctorBranch_effect:
  assumes "doctorBranch rt w i convo d q = (r, w')"
  shows "(r = ServerError \<and> conversations w' = conversations w) \<or>
     (\<exists>a. r = ChatOk \<lparr>answer = a,
                 replyMessages = messages convo @ [\<lparr>role = Assistant, content = a\<rparr>],
                 replyDoctor = Some d, replyPendingDoctor = None\<rparr>
        \<and> conversations w' = (conversations w)(i \<mapsto>
              convo\<lparr>messages := messages convo @ [\<lparr>role = Assistant, content = a\<rparr>]\<rparr>))"
proof (cases "answerText (generateContent rt (calls w) (doctorPrompt d q)) = None
    \<or> answerText (generateContent rt (calls w) (doctorPrompt d q)) = Some []")
  case True
  with assms show ?thesis by (auto simp: doctorBranch_throws)
next
  case False
  then obtain a where "answerText (generateContent rt (calls w) (doctorPrompt d q)) = Some a"
      "a \<noteq> []"
    by (cases "answerText (generateContent rt (calls w) (doctorPrompt d q))") auto
  with assms show ?thesis by (auto simp: doctorBranch_answer)
qed

lemma genericBranch_effect:
  assumes "genericBranch rt w i convo q lower = (r, w')"
  shows "(r = ServerError \<and> conversations w' = conversations w) \<or>
     (\<exists>a. r = ChatOk \<lparr>answer = a,
                 replyMessages = messages convo @ [\<lparr>role = Assistant, content = a\<rparr>],
                 replyDoctor = None, replyPendingDoctor = None\<rparr>
        \<and> conversations w' = (conversations w)(i \<mapsto>
              convo\<lparr>messages := messages convo @ [\<lparr>role = Assistant, content = a\<rparr>]\<rparr>)) \<or>
     (\<exists>d. r = ChatOk \<lparr>answer = confirmMsg d,
                 replyMessages = messages convo @ [\<lparr>role = Assistant, content = confirmMsg d\<rparr>],
                 replyDoctor = None, replyPendingDoctor = Some d\<rparr>
        \<and> conversations w' = (conversations w)(i \<mapsto>
              convo\<lparr>pendingDoctor := Some d,
                    messages := messages convo @ [\<lparr>role = Assistant, content = confirmMsg d\<rparr>]\<rparr>))"
proof (cases "fst (detectDoctorIntent rt w q)")
  case None
  with assms show ?thesis by (auto simp: genericBranch_throws)
next
  case (Some wants)
  show ?thesis
  proof (cases "wants \<and> findOne (chatSpecialty lower) (doctors w) \<noteq> None")
    case True
    then obtain d where "findOne (chatSpecialty lower) (doctors w) = Some d" by auto
    with True Some assms show ?thesis by (auto simp: genericBranch_offer)
  next
    case False
    then have "wants \<longrightarrow> findOne (chatSpecialty lower) (doctors w) = None" by auto
    with Some assms
    have "nurseReply rt (w\<lparr>calls := calls w @ [triageprompt q]\<rparr>) i convo q = (r, w')"
      by (simp add: genericBranch_nurse)
    from nurseReply_effect [OF this] show ?thesis by auto
  qed
qed

text \<open>
  An empty text of the model is refused when the conversation is saved: the request fails and
  nothing is stored.
\<close>

lemma empty_answer_refused:
  "fst (chat blankRuntime demoWorld 1 (ask text_met)) = ServerError
   \<and> conversations (snd (chat blankRuntime demoWorld 1 (ask text_met))) = conversations demoWorld
   \<and> fst (tempChat blankRuntime demoWorld 1 (ask text_met)) = ServerError
   \<and> tempConversations (snd (tempChat blankRuntime demoWorld 1 (ask text_met)))
       = tempConversations demoWorld"
proof -
  have body: "reqUserId (ask text_met) = Some demoUser" "demoUser \<noteq> []"
    "question (ask text_met) = Some text_met" "text_met \<noteq> []"
    by (simp_all add: ask_def demoUser_def text_met_def)
  have conv: "conversations demoWorld 1 = Some genericConvo"
    and tconv: "tempConversations demoWorld 1
      = Some \<lparr>tempUserId = demoUser, tempMessages = [], systemInstructions = []\<rparr>"
    by (simp_all add: demoWorld_def)
  have fields: "ctype genericConvo = Ai" "pendingDoctor genericConvo = None"
    by (simp_all add: genericConvo_def newConversation_def)
  have blank: "generateContent blankRuntime sent p = Text []" for sent p
    by (simp add: blankRuntime_def)
  have no: "fst (detectDoctorIntent blankRuntime demoWorld text_met) = Some False"
    by (simp add: detect_fst blank) (simp add: blankRuntime_def lowerAscii_def trim_def tok_yes_def)
  have "chat blankRuntime demoWorld 1 (ask text_met) =
      genericBranch blankRuntime demoWorld 1
        (genericConvo\<lparr>messages := messages genericConvo @ [\<lparr>role = User, content = text_met\<rparr>]\<rparr>)
        text_met (toLowerCase blankRuntime text_met)"
    using body conv fields by (intro chat_generic) simp_all
  then have one: "chat blankRuntime demoWorld 1 (ask text_met) =
      (ServerError, demoWorld\<lparr>calls := calls demoWorld @ [triageprompt text_met, aiPrompt text_met]\<rparr>)"
    by (simp add: genericBranch_nurse [OF no] nurseReply_throws blank answerText_def)
  have no2: "detectDoctorIntent2 blankRuntime demoWorld text_met
      = (Some False, demoWorld\<lparr>calls := calls demoWorld @ [triageprompt text_met]\<rparr>)"
    using body(4) detect2_snd [of text_met blankRuntime demoWorld]
    by (simp add: prod_eq_iff detect2_fst blank)
      (simp add: blankRuntime_def lowerAscii_def trim_def tok_yes_def)
  have two: "fst (tempChat blankRuntime demoWorld 1 (ask text_met)) = ServerError"
    "tempConversations (snd (tempChat blankRuntime demoWorld 1 (ask text_met)))
       = tempConversations demoWorld"
    using tempChat_valid [OF body tconv, of blankRuntime] no2
    by (simp_all add: blank answerText2_def)
  from one two show ?thesis by simp
qed

text \<open>
  Every outcome of the chat handler: an error that leaves the conversations as they were, or
  a reply, with the stored conversation extended by the user's message and one assistant
  message, and its other fields changed in one of four ways.
\<close>

lemma chat_effect:
  assumes run: "chat rt w i body = (r, w')"
  shows "(r \<in> {BadRequest, NotFound, ServerError} \<and> conversations w' = conversations w) \<or>
     (\<exists>c q reply c'. conversations w i = Some c \<and> question body = Some q \<and> r = ChatOk reply
        \<and> conversations w' = (conversations w)(i \<mapsto> c')
        \<and> replyMessages reply = messages c'
        \<and> messages c' = messages c @ [\<lparr>role = User, content = q\<rparr>,
                                       \<lparr>role = Assistant, content = answer reply\<rparr>]
        \<and> ((\<exists>pd. pendingDoctor c = Some pd \<and> ctype c' = DoctorType \<and> doctor c' = Some pd
                  \<and> pendingDoctor c' = None)
           \<or> (ctype c' = ctype c \<and> doctor c' = doctor c \<and> pendingDoctor c' = None)
           \<or> (ctype c' = ctype c \<and> doctor c' = doctor c \<and> pendingDoctor c' = pendingDoctor c)
           \<or> (ctype c = Ai \<or> doctor c = None) \<and> ctype c' = ctype c \<and> doctor c' = doctor c
               \<and> pendingDoctor c' \<noteq> None))"
proof (cases "falsy (reqUserId body) \<or> falsy (question body)")
  case True
  with run show ?thesis by (auto simp: chat_def)
next
  case False
  then obtain u q where body: "reqUserId body = Some u" "u \<noteq> []" "question body = Some q" "q \<noteq> []"
    by (auto simp: falsy_def split: option.splits)
  show ?thesis
  proof (cases "conversations w i")
    case None
    with run body show ?thesis by (auto simp: chat_def falsy_def)
  next
    case (Some c)
    let ?convo = "c\<lparr>messages := pushMessage User q (messages c)\<rparr>"
    note unfold = chat_valid [OF body Some, of rt]
    have conclude: ?thesis
      if "r = ChatOk reply" and "conversations w' = (conversations w)(i \<mapsto> c')"
        and "replyMessages reply = messages c'"
        and "messages c' = messages c @ [\<lparr>role = User, content = q\<rparr>,
                                         \<lparr>role = Assistant, content = answer reply\<rparr>]"
        and "(\<exists>pd. pendingDoctor c = Some pd \<and> ctype c' = DoctorType \<and> doctor c' = Some pd
                  \<and> pendingDoctor c' = None)
           \<or> (ctype c' = ctype c \<and> doctor c' = doctor c \<and> pendingDoctor c' = None)
           \<or> (ctype c' = ctype c \<and> doctor c' = doctor c \<and> pendingDoctor c' = pendingDoctor c)
           \<or> (ctype c = Ai \<or> doctor c = None) \<and> ctype c' = ctype c \<and> doctor c' = doctor c
               \<and> pendingDoctor c' \<noteq> None"
      for reply c'
      using that Some body(3) by blast
    have failed: ?thesis if "r = ServerError" and "conversations w' = conversations w"
      using that by simp
    show ?thesis
    proof (cases "confirmBranch ?convo (toLowerCase rt q)")
      case confirmed: (Some p)
      then obtain convo' reply where p: "p = (convo', reply)" by (cases p)
      from confirmed p obtain pd where pd: "pendingDoctor c = Some pd"
        by (auto simp: confirmBranch_def split: option.splits)
      from run confirmed p unfold
      have r: "r = ChatOk reply" and w': "conversations w' = (conversations w)(i \<mapsto> convo')"
        by (auto simp: saveConversation_def)
      from confirmed p pd
      have "replyMessages reply = messages convo'"
        and "messages convo' = messages c @ [\<lparr>role = User, content = q\<rparr>,
                                            \<lparr>role = Assistant, content = answer reply\<rparr>]"
        and "ctype convo' = DoctorType \<and> doctor convo' = Some pd \<and> pendingDoctor convo' = None
             \<or> ctype convo' = ctype c \<and> doctor convo' = doctor c \<and> pendingDoctor convo' = None"
        by (auto simp: confirmBranch_def pushMessage_def Let_def split: if_splits)
      with r w' pd show ?thesis by (intro conclude [of reply convo']) auto
    next
      case None
      show ?thesis
      proof (cases "\<exists>d. ctype c = DoctorType \<and> doctor c = Some d")
        case True
        then obtain d where d: "ctype c = DoctorType" "doctor c = Some d" by blast
        with run None unfold have "doctorBranch rt w i ?convo d q = (r, w')" by simp
        from doctorBranch_effect [OF this] show ?thesis
        proof (elim disjE exE conjE)
          assume "r = ServerError" "conversations w' = conversations w"
          then show ?thesis by (rule failed)
        next
          fix a
          assume "r = ChatOk \<lparr>answer = a,
                 replyMessages = messages ?convo @ [\<lparr>role = Assistant, content = a\<rparr>],
                 replyDoctor = Some d, replyPendingDoctor = None\<rparr>" (is "r = ChatOk ?reply")
            and "conversations w' = (conversations w)(i \<mapsto>
              ?convo\<lparr>messages := messages ?convo @ [\<lparr>role = Assistant, content = a\<rparr>]\<rparr>)"
              (is "_ = _(i \<mapsto> ?c')")
          then show ?thesis
            by (intro conclude [of ?reply ?c']) (simp_all add: pushMessage_def)
        qed
      next
        case False
        then have free: "ctype c = Ai \<or> doctor c = None"
          by (cases "ctype c"; cases "doctor c") auto
        with run None unfold
        have "genericBranch rt w i ?convo q (toLowerCase rt q) = (r, w')"
          by (cases "ctype c"; cases "doctor c") auto
        from genericBranch_effect [OF this] show ?thesis
        proof (elim disjE exE conjE)
          assume "r = ServerError" "conversations w' = conversations w"
          then show ?thesis by (rule failed)
        next
          fix a
          assume "r = ChatOk \<lparr>answer = a,
                 replyMessages = messages ?convo @ [\<lparr>role = Assistant, content = a\<rparr>],
                 replyDoctor = None, replyPendingDoctor = None\<rparr>" (is "r = ChatOk ?reply")
            and "conversations w' = (conversations w)(i \<mapsto>
              ?convo\<lparr>messages := messages ?convo @ [\<lparr>role = Assistant, content = a\<rparr>]\<rparr>)"
              (is "_ = _(i \<mapsto> ?c')")
          then show ?thesis
            by (intro conclude [of ?reply ?c']) (simp_all add: pushMessage_def)
        next
          fix d
          assume "r = ChatOk \<lparr>answer = confirmMsg d,
                 replyMessages = messages ?convo @ [\<lparr>role = Assistant, content = confirmMsg d\<rparr>],
                 replyDoctor = None, replyPendingDoctor = Some d\<rparr>" (is "r = ChatOk ?reply")
            and "conversations w' = (conversations w)(i \<mapsto>
              ?convo\<lparr>pendingDoctor := Some d,
                    messages := messages ?convo @ [\<lparr>role = Assistant, content = confirmMsg d\<rparr>]\<rparr>)"
              (is "_ = _(i \<mapsto> ?c')")
          with free show ?thesis
            by (intro conclude [of ?reply ?c']) (simp_all add: pushMessage_def)
        qed
      qed
    qed
  qed
qed

lemma tempChat_effect:
  assumes run: "tempChat rt w i body = (TempChatOk reply, w')"
  shows "\<exists>tc q. tempConversations w i = Some tc \<and> question body = Some q
       \<and> map_option tempMessages (tempConversations w' i)
          = Some (tempMessages tc @ [\<lparr>role = User, content = q\<rparr>,
                                     \<lparr>role = Assistant, content = tempAnswer reply\<rparr>])
       \<and> tempReplyMessages reply = tempMessages tc @ [\<lparr>role = User, content = q\<rparr>,
                                     \<lparr>role = Assistant, content = tempAnswer reply\<rparr>]"
proof (cases "falsy (reqUserId body) \<or> falsy (question body)")
  case True
  with run show ?thesis by (auto simp: tempChat_def)
next
  case False
  then obtain u q where body: "reqUserId body = Some u" "u \<noteq> []" "question body = Some q" "q \<noteq> []"
    by (auto simp: falsy_def split: option.splits)
  show ?thesis
  proof (cases "tempConversations w i")
    case None
    with run body show ?thesis by (auto simp: tempChat_def falsy_def)
  next
    case (Some tc)
    from run show ?thesis
      unfolding tempChat_valid [OF body Some]
      using Some body(3)
      by (auto split: option.splits prod.splits if_splits)
  qed
qed

text \<open>
  Claim C8. Every successful chat request, in either file, extends the transcript of its
  conversation by exactly the user's message followed by exactly one assistant message, the
  one returned as the answer.
\<close>

theorem one_user_one_assistant:
  "(chat rt w i body = (ChatOk reply, w')
    \<longrightarrow> (\<exists>c q. conversations w i = Some c \<and> question body = Some q
          \<and> map_option messages (conversations w' i)
             = Some (messages c @ [\<lparr>role = User, content = q\<rparr>,
                                   \<lparr>role = Assistant, content = answer reply\<rparr>])
          \<and> replyMessages reply = messages c @ [\<lparr>role = User, content = q\<rparr>,
                                   \<lparr>role = Assistant, content = answer reply\<rparr>]))
   \<and> (tempChat rt w i body = (TempChatOk treply, w'')
    \<longrightarrow> (\<exists>tc q. tempConversations w i = Some tc \<and> question body = Some q
          \<and> map_option tempMessages (tempConversations w'' i)
             = Some (tempMessages tc @ [\<lparr>role = User, content = q\<rparr>,
                                        \<lparr>role = Assistant, content = tempAnswer treply\<rparr>])
          \<and> tempReplyMessages treply = tempMessages tc @ [\<lparr>role = User, content = q\<rparr>,
                                        \<lparr>role = Assistant, content = tempAnswer treply\<rparr>]))"
proof (intro conjI impI)
  assume "chat rt w i body = (ChatOk reply, w')"
  from chat_effect [OF this]
  obtain c q c' where "conversations w i = Some c" "question body = Some q"
      "conversations w' = (conversations w)(i \<mapsto> c')" "replyMessages reply = messages c'"
      "messages c' = messages c @ [\<lparr>role = User, content = q\<rparr>,
                                   \<lparr>role = Assistant, content = answer reply\<rparr>]"
    by auto
  then show "\<exists>c q. conversations w i = Some c \<and> question body = Some q
          \<and> map_option messages (conversations w' i)
             = Some (messages c @ [\<lparr>role = User, content = q\<rparr>,
                                   \<lparr>role = Assistant, content = answer reply\<rparr>])
          \<and> replyMessages reply = messages c @ [\<lparr>role = User, content = q\<rparr>,
                                   \<lparr>role = Assistant, content = answer reply\<rparr>]"
    by simp
next
  assume "tempChat rt w i body = (TempChatOk treply, w'')"
  then show "\<exists>tc q. tempConversations w i = Some tc \<and> question body = Some q
          \<and> map_option tempMessages (tempConversations w'' i)
             = Some (tempMessages tc @ [\<lparr>role = User, content = q\<rparr>,
                                        \<lparr>role = Assistant, content = tempAnswer treply\<rparr>])
          \<and> tempReplyMessages treply = tempMessages tc @ [\<lparr>role = User, content = q\<rparr>,
                                        \<lparr>role = Assistant, content = tempAnswer treply\<rparr>]"
    by (rule tempChat_effect)
qed

text \<open>
  Claim C8 at an input: the message "met" to conversation 1 and to temporary conversation 1,
  with a classifier that answers "no" and a reply without a response.
\<close>

theorem one_user_one_assistant_witness:
  "fst (chat silentRuntime demoWorld 1 (ask text_met)) =
      ChatOk \<lparr>answer = noResponseText,
             replyMessages = [\<lparr>role = User, content = text_met\<rparr>,
                              \<lparr>role = Assistant, content = noResponseText\<rparr>],
             replyDoctor = None, replyPendingDoctor = None\<rparr>
   \<and> map_option messages (conversations demoWorld 1) = Some []
   \<and> map_option messages (conversations (snd (chat silentRuntime demoWorld 1 (ask text_met))) 1)
      = Some [\<lparr>role = User, content = text_met\<rparr>, \<lparr>role = Assistant, content = noResponseText\<rparr>]
   \<and> fst (tempChat silentRuntime demoWorld 1 (ask text_met)) =
      TempChatOk \<lparr>tempAnswer = noResponseText,
             tempReplyMessages = [\<lparr>role = User, content = text_met\<rparr>,
                                  \<lparr>role = Assistant, content = noResponseText\<rparr>],
             replyTriage = None, tempReplyDoctor = None\<rparr>
   \<and> map_option tempMessages (tempConversations demoWorld 1) = Some []
   \<and> map_option tempMessages
        (tempConversations (snd (tempChat silentRuntime demoWorld 1 (ask text_met))) 1)
      = Some [\<lparr>role = User, content = text_met\<rparr>, \<lparr>role = Assistant, content = noResponseText\<rparr>]"
proof -
  let ?reply = "\<lparr>answer = noResponseText,
             replyMessages = [\<lparr>role = User, content = text_met\<rparr>,
                              \<lparr>role = Assistant, content = noResponseText\<rparr>],
             replyDoctor = None, replyPendingDoctor = None\<rparr>"
  let ?treply = "\<lparr>tempAnswer = noResponseText,
             tempReplyMessages = [\<lparr>role = User, content = text_met\<rparr>,
                                  \<lparr>role = Assistant, content = noResponseText\<rparr>],
             replyTriage = None, tempReplyDoctor = None\<rparr>"
  have body: "reqUserId (ask text_met) = Some demoUser" "demoUser \<noteq> []"
    "question (ask text_met) = Some text_met" "text_met \<noteq> []"
    by (simp_all add: ask_def demoUser_def text_met_def)
  have conv: "conversations demoWorld 1 = Some genericConvo"
    and tconv: "tempConversations demoWorld 1
      = Some \<lparr>tempUserId = demoUser, tempMessages = [], systemInstructions = []\<rparr>"
    and calls: "calls demoWorld = []"
    by (simp_all add: demoWorld_def)
  have fields: "ctype genericConvo = Ai" "pendingDoctor genericConvo = None"
    "messages genericConvo = []"
    by (simp_all add: genericConvo_def newConversation_def)
  have no: "fst (detectDoctorIntent silentRuntime demoWorld text_met) = Some False"
    by (simp add: detect_fst silentRuntime_def demoWorld_def trim_def isWhiteSpace_def
        lowerAscii_def tok_no_def tok_yes_def)
  have silent: "answerText (generateContent silentRuntime
        (calls (demoWorld\<lparr>calls := calls demoWorld @ [triageprompt text_met]\<rparr>)) (aiPrompt text_met))
      = Some noResponseText"
    by (simp add: silentRuntime_def answerText_def)
  have "chat silentRuntime demoWorld 1 (ask text_met) =
      genericBranch silentRuntime demoWorld 1
        (genericConvo\<lparr>messages := messages genericConvo @ [\<lparr>role = User, content = text_met\<rparr>]\<rparr>)
        text_met (toLowerCase silentRuntime text_met)"
    using body conv fields by (intro chat_generic) simp_all
  then have one: "fst (chat silentRuntime demoWorld 1 (ask text_met)) = ChatOk ?reply"
    using silent fields noResponseText_nonempty
    by (simp add: genericBranch_nurse [OF no] nurseReply_answer)
  have no2: "detectDoctorIntent2 silentRuntime demoWorld text_met
      = (Some False, demoWorld\<lparr>calls := calls demoWorld @ [triageprompt text_met]\<rparr>)"
    using body(4) detect2_snd [of text_met silentRuntime demoWorld]
    by (simp add: prod_eq_iff detect2_fst silentRuntime_def demoWorld_def trim_def
        isWhiteSpace_def lowerAscii_def tok_no_def tok_yes_def)
  have gen2: "generateContent silentRuntime
      (calls (demoWorld\<lparr>calls := calls demoWorld @ [triageprompt text_met]\<rparr>)) p = NoResponse" for p
    by (simp add: silentRuntime_def)
  have two: "fst (tempChat silentRuntime demoWorld 1 (ask text_met)) = TempChatOk ?treply"
    using tempChat_valid [OF body tconv, of silentRuntime] no2 gen2 noResponseText_nonempty
    by (simp add: answerText2_def)
  from one have "chat silentRuntime demoWorld 1 (ask text_met)
      = (ChatOk ?reply, snd (chat silentRuntime demoWorld 1 (ask text_met)))"
    by (simp add: prod_eq_iff)
  moreover from two have "tempChat silentRuntime demoWorld 1 (ask text_met)
      = (TempChatOk ?treply, snd (tempChat silentRuntime demoWorld 1 (ask text_met)))"
    by (simp add: prod_eq_iff)
  ultimately show ?thesis
    using one_user_one_assistant [of silentRuntime demoWorld 1 "ask text_met" ?reply
        "snd (chat silentRuntime demoWorld 1 (ask text_met))" ?treply
        "snd (tempChat silentRuntime demoWorld 1 (ask text_met))"]
      one two conv tconv fields
    by (auto simp: ask_def)
qed

text \<open>The temporary chat does not touch the conversations of the first file.\<close>

lemma tempChat_conversations: "conversations (snd (tempChat rt w i body)) = conversations w"
proof (cases "falsy (reqUserId body) \<or> falsy (question body)")
  case True
  then show ?thesis by (auto simp: tempChat_def)
next
  case False
  then obtain u q where body: "reqUserId body = Some u" "u \<noteq> []" "question body = Some q" "q \<noteq> []"
    by (auto simp: falsy_def split: option.splits)
  show ?thesis
  proof (cases "tempConversations w i")
    case None
    with body show ?thesis by (simp add: tempChat_def falsy_def)
  next
    case (Some tc)
    obtain r where r: "detectDoctorIntent2 rt w q = (r, w\<lparr>calls := calls w @ [triageprompt q]\<rparr>)"
      using detect2_snd [OF body(4), of rt w] by (cases "detectDoctorIntent2 rt w q") simp
    show ?thesis
      unfolding tempChat_valid [OF body Some] r
      by (simp add: localTriage_def saveTriage_def Let_def split: option.splits)
  qed
qed

text \<open>
  Claim C9. The invariant holds for a new conversation, which is what the creation handler
  stores; a chat request keeps it for the conversation it handles, on every branch and
  for every outcome; it leaves every other conversation as it was; and the temporary chat
  changes no conversation.
\<close>

theorem invariant_preserved:
  "dataInvariant (newConversation u)
   \<and> (uo = Some u \<and> u \<noteq> []
      \<longrightarrow> conversations (snd (createConversation w j uo)) j = Some (newConversation u))
   \<and> (conversations w i = Some c \<and> dataInvariant c
        \<and> conversations (snd (chat rt w i body)) i = Some c'
      \<longrightarrow> dataInvariant c')
   \<and> (k \<noteq> i \<longrightarrow> conversations (snd (chat rt w i body)) k = conversations w k)
   \<and> conversations (snd (tempChat rt w i' body')) = conversations w"
proof (intro conjI impI)
  show "dataInvariant (newConversation u)"
    by (simp add: dataInvariant_def newConversation_def modeOf_def)
next
  assume "uo = Some u \<and> u \<noteq> []"
  then show "conversations (snd (createConversation w j uo)) j = Some (newConversation u)"
    by (simp add: createConversation_def saveConversation_def)
next
  assume a: "conversations w i = Some c \<and> dataInvariant c
        \<and> conversations (snd (chat rt w i body)) i = Some c'"
  obtain r w' where run: "chat rt w i body = (r, w')" by (cases "chat rt w i body")
  from chat_effect [OF run]
  consider (failed) "conversations w' = conversations w"
    | (replied) c0 c1 where "conversations w i = Some c0"
        and "conversations w' = (conversations w)(i \<mapsto> c1)"
        and "(\<exists>pd. pendingDoctor c0 = Some pd \<and> ctype c1 = DoctorType \<and> doctor c1 = Some pd
                  \<and> pendingDoctor c1 = None)
           \<or> (ctype c1 = ctype c0 \<and> doctor c1 = doctor c0 \<and> pendingDoctor c1 = None)
           \<or> (ctype c1 = ctype c0 \<and> doctor c1 = doctor c0 \<and> pendingDoctor c1 = pendingDoctor c0)
           \<or> (ctype c0 = Ai \<or> doctor c0 = None) \<and> ctype c1 = ctype c0 \<and> doctor c1 = doctor c0
               \<and> pendingDoctor c1 \<noteq> None"
    by blast
  then show "dataInvariant c'"
  proof cases
    case failed
    with a run show ?thesis by auto
  next
    case (replied c0 c1)
    from a replied(1) have "c0 = c" by simp
    moreover from a run replied(2) have "c1 = c'" by simp
    ultimately show ?thesis
      using replied(3) a
      by (cases "ctype c") (auto simp: dataInvariant_def modeOf_def split: if_splits)
  qed
next
  assume "k \<noteq> i"
  obtain r w' where run: "chat rt w i body = (r, w')" by (cases "chat rt w i body")
  from chat_effect [OF run] \<open>k \<noteq> i\<close> have "conversations w' k = conversations w k" by auto
  with run show "conversations (snd (chat rt w i body)) k = conversations w k" by simp
next
  show "conversations (snd (tempChat rt w i' body')) = conversations w"
    by (rule tempChat_conversations)
qed

text \<open>
  Claim C9 at an input: accepting the pending hand-off of conversation 2, and creating
  conversation 4.
\<close>

theorem invariant_preserved_witness:
  "conversations demoWorld 2 = Some pendingConvo
   \<and> dataInvariant pendingConvo
   \<and> conversations (snd (chat emptyRuntime demoWorld 2 (ask tok_co))) 2
      = Some (pendingConvo\<lparr>ctype := DoctorType, doctor := Some cardiologist, pendingDoctor := None,
           messages := [\<lparr>role = User, content = tok_co\<rparr>,
                        \<lparr>role = Assistant, content = acceptNotice cardiologist\<rparr>]\<rparr>)
   \<and> dataInvariant (pendingConvo\<lparr>ctype := DoctorType, doctor := Some cardiologist,
           pendingDoctor := None,
           messages := [\<lparr>role = User, content = tok_co\<rparr>,
                        \<lparr>role = Assistant, content = acceptNotice cardiologist\<rparr>]\<rparr>)
   \<and> conversations (snd (createConversation demoWorld 4 (Some demoUser))) 4
      = Some (newConversation demoUser)
   \<and> dataInvariant (newConversation demoUser)
   \<and> conversations (snd (chat emptyRuntime demoWorld 2 (ask tok_co))) 1 = conversations demoWorld 1"
proof -
  let ?c' = "pendingConvo\<lparr>ctype := DoctorType, doctor := Some cardiologist, pendingDoctor := None,
           messages := [\<lparr>role = User, content = tok_co\<rparr>,
                        \<lparr>role = Assistant, content = acceptNotice cardiologist\<rparr>]\<rparr>"
  have conv: "conversations demoWorld 2 = Some pendingConvo"
    by (simp add: demoWorld_def)
  have inv: "dataInvariant pendingConvo"
    by (simp add: dataInvariant_def pendingConvo_def newConversation_def modeOf_def)
  have after: "conversations (snd (chat emptyRuntime demoWorld 2 (ask tok_co))) 2 = Some ?c'"
    by (simp add: demoWorld_def pendingConvo_def newConversation_def ask_def demoUser_def
        tok_co_def chat_def falsy_def confirmBranch_def pushMessage_def saveConversation_def
        someIncluded_def affirmative_def emptyRuntime_def lowerAscii_def Let_def)
  have user: "demoUser \<noteq> []" by (simp add: demoUser_def)
  from invariant_preserved [of demoUser "Some demoUser" demoWorld 4 2 pendingConvo emptyRuntime
      "ask tok_co" ?c' 1] conv inv after user
  show ?thesis by simp
qed

section \<open>A result without text\<close>

text \<open>
  Claim C10. When the model's call returns but the result, its response or the text is null
  or undefined, the doctor branch and the nurse branch both succeed with the fixed text
  "(Khong co phan hoi)" as the assistant message appended and returned.
\<close>

theorem no_response_placeholder:
  assumes conv: "conversations w i = Some c"
    and body: "reqUserId body = Some u" "u \<noteq> []" "question body = Some q" "q \<noteq> []"
  shows "(modeOf c = DoctorActive \<and> doctor c = Some d \<and> pendingDoctor c = None
        \<and> generateContent rt (calls w) (doctorPrompt d q) \<in> {NoResult, NoResponse, NoText}
      \<longrightarrow> chat rt w i body =
           (ChatOk \<lparr>answer = noResponseText,
                    replyMessages = messages c @ [\<lparr>role = User, content = q\<rparr>,
                                                  \<lparr>role = Assistant, content = noResponseText\<rparr>],
                    replyDoctor = Some d, replyPendingDoctor = None\<rparr>,
            w\<lparr>conversations := (conversations w)(i \<mapsto>
                 c\<lparr>messages := messages c @ [\<lparr>role = User, content = q\<rparr>,
                                             \<lparr>role = Assistant, content = noResponseText\<rparr>]\<rparr>),
              calls := calls w @ [doctorPrompt d q]\<rparr>))
   \<and> (modeOf c = Generic \<and> fst (detectDoctorIntent rt w q) = Some wants
        \<and> (wants \<longrightarrow> findOne (chatSpecialty (toLowerCase rt q)) (doctors w) = None)
        \<and> generateContent rt (calls w @ [triageprompt q]) (aiPrompt q)
            \<in> {NoResult, NoResponse, NoText}
      \<longrightarrow> chat rt w i body =
           (ChatOk \<lparr>answer = noResponseText,
                    replyMessages = messages c @ [\<lparr>role = User, content = q\<rparr>,
                                                  \<lparr>role = Assistant, content = noResponseText\<rparr>],
                    replyDoctor = None, replyPendingDoctor = None\<rparr>,
            w\<lparr>conversations := (conversations w)(i \<mapsto>
                 c\<lparr>messages := messages c @ [\<lparr>role = User, content = q\<rparr>,
                                             \<lparr>role = Assistant, content = noResponseText\<rparr>]\<rparr>),
              calls := calls w @ [triageprompt q, aiPrompt q]\<rparr>))"
proof (intro conjI impI)
  assume a: "modeOf c = DoctorActive \<and> doctor c = Some d \<and> pendingDoctor c = None
        \<and> generateContent rt (calls w) (doctorPrompt d q) \<in> {NoResult, NoResponse, NoText}"
  then have dt: "ctype c = DoctorType"
    by (cases "ctype c") (simp_all add: modeOf_def split: if_splits)
  from a have ans: "answerText (generateContent rt (calls w) (doctorPrompt d q)) = Some noResponseText"
    by (auto simp: answerText_def)
  have "confirmBranch (c\<lparr>messages := pushMessage User q (messages c)\<rparr>) (toLowerCase rt q) = None"
    using a by (intro confirmBranch_none) simp
  with a dt ans show "chat rt w i body =
           (ChatOk \<lparr>answer = noResponseText,
                    replyMessages = messages c @ [\<lparr>role = User, content = q\<rparr>,
                                                  \<lparr>role = Assistant, content = noResponseText\<rparr>],
                    replyDoctor = Some d, replyPendingDoctor = None\<rparr>,
            w\<lparr>conversations := (conversations w)(i \<mapsto>
                 c\<lparr>messages := messages c @ [\<lparr>role = User, content = q\<rparr>,
                                             \<lparr>role = Assistant, content = noResponseText\<rparr>]\<rparr>),
              calls := calls w @ [doctorPrompt d q]\<rparr>)"
    using noResponseText_nonempty
    by (simp add: chat_valid [OF body conv] doctorBranch_answer pushMessage_def)
next
  assume a: "modeOf c = Generic \<and> fst (detectDoctorIntent rt w q) = Some wants
        \<and> (wants \<longrightarrow> findOne (chatSpecialty (toLowerCase rt q)) (doctors w) = None)
        \<and> generateContent rt (calls w @ [triageprompt q]) (aiPrompt q)
            \<in> {NoResult, NoResponse, NoText}"
  then have ai: "ctype c = Ai" and nopend: "pendingDoctor c = None"
    using generic_is_ai by blast+
  from a have ans: "answerText (generateContent rt
        (calls (w\<lparr>calls := calls w @ [triageprompt q]\<rparr>)) (aiPrompt q)) = Some noResponseText"
    by (auto simp: answerText_def)
  have "chat rt w i body =
      genericBranch rt w i (c\<lparr>messages := messages c @ [\<lparr>role = User, content = q\<rparr>]\<rparr>) q
        (toLowerCase rt q)"
    using body conv ai nopend by (intro chat_generic) simp_all
  with a ans show "chat rt w i body =
           (ChatOk \<lparr>answer = noResponseText,
                    replyMessages = messages c @ [\<lparr>role = User, content = q\<rparr>,
                                                  \<lparr>role = Assistant, content = noResponseText\<rparr>],
                    replyDoctor = None, replyPendingDoctor = None\<rparr>,
            w\<lparr>conversations := (conversations w)(i \<mapsto>
                 c\<lparr>messages := messages c @ [\<lparr>role = User, content = q\<rparr>,
                                             \<lparr>role = Assistant, content = noResponseText\<rparr>]\<rparr>),
              calls := calls w @ [triageprompt q, aiPrompt q]\<rparr>)"
    using noResponseText_nonempty by (simp add: genericBranch_nurse nurseReply_answer)
qed

text \<open>
  Claim C10 at two inputs: the message "met" to the doctor conversation 3 with a model whose
  result has no response, and to the generic conversation 1 with a classifier that answers
  "no" and a nurse call whose result has no response.
\<close>

theorem no_response_placeholder_witness:
  "conversations demoWorld 3 = Some doctorConvo
   \<and> modeOf doctorConvo = DoctorActive \<and> doctor doctorConvo = Some cardiologist
   \<and> pendingDoctor doctorConvo = None
   \<and> generateContent emptyRuntime (calls demoWorld) (doctorPrompt cardiologist text_met)
       \<in> {NoResult, NoResponse, NoText}
   \<and> fst (chat emptyRuntime demoWorld 3 (ask text_met)) =
       ChatOk \<lparr>answer = noResponseText,
              replyMessages = [\<lparr>role = User, content = text_met\<rparr>,
                               \<lparr>role = Assistant, content = noResponseText\<rparr>],
              replyDoctor = Some cardiologist, replyPendingDoctor = None\<rparr>
   \<and> conversations demoWorld 1 = Some genericConvo
   \<and> modeOf genericConvo = Generic
   \<and> fst (detectDoctorIntent silentRuntime demoWorld text_met) = Some False
   \<and> generateContent silentRuntime (calls demoWorld @ [triageprompt text_met]) (aiPrompt text_met)
       \<in> {NoResult, NoResponse, NoText}
   \<and> fst (chat silentRuntime demoWorld 1 (ask text_met)) =
       ChatOk \<lparr>answer = noResponseText,
              replyMessages = [\<lparr>role = User, content = text_met\<rparr>,
                               \<lparr>role = Assistant, content = noResponseText\<rparr>],
              replyDoctor = None, replyPendingDoctor = None\<rparr>"
proof -
  have body: "reqUserId (ask text_met) = Some demoUser" "demoUser \<noteq> []"
    "question (ask text_met) = Some text_met" "text_met \<noteq> []"
    by (simp_all add: ask_def demoUser_def text_met_def)
  have conv3: "conversations demoWorld 3 = Some doctorConvo"
    and conv1: "conversations demoWorld 1 = Some genericConvo"
    by (simp_all add: demoWorld_def)
  have doc: "modeOf doctorConvo = DoctorActive" "doctor doctorConvo = Some cardiologist"
    "pendingDoctor doctorConvo = None" "messages doctorConvo = []"
    by (simp_all add: doctorConvo_def newConversation_def modeOf_def)
  have gen: "modeOf genericConvo = Generic" "messages genericConvo = []"
    by (simp_all add: genericConvo_def newConversation_def modeOf_def)
  have e1: "generateContent emptyRuntime (calls demoWorld) (doctorPrompt cardiologist text_met)
       = NoResponse"
    by (simp add: emptyRuntime_def)
  then have empty: "generateContent emptyRuntime (calls demoWorld)
       (doctorPrompt cardiologist text_met) \<in> {NoResult, NoResponse, NoText}"
    by simp
  have no: "fst (detectDoctorIntent silentRuntime demoWorld text_met) = Some False"
    by (simp add: detect_fst silentRuntime_def demoWorld_def trim_def isWhiteSpace_def
        lowerAscii_def tok_no_def tok_yes_def)
  have e2: "generateContent silentRuntime (calls demoWorld @ [triageprompt text_met])
        (aiPrompt text_met) = NoResponse"
    by (simp add: silentRuntime_def)
  then have silent: "generateContent silentRuntime (calls demoWorld @ [triageprompt text_met])
        (aiPrompt text_met) \<in> {NoResult, NoResponse, NoText}"
    by simp
  from no_response_placeholder [OF conv3 body, of cardiologist emptyRuntime False]
    doc e1
  have one: "fst (chat emptyRuntime demoWorld 3 (ask text_met)) =
       ChatOk \<lparr>answer = noResponseText,
              replyMessages = [\<lparr>role = User, content = text_met\<rparr>,
                               \<lparr>role = Assistant, content = noResponseText\<rparr>],
              replyDoctor = Some cardiologist, replyPendingDoctor = None\<rparr>"
    by simp
  from no_response_placeholder [OF conv1 body, of cardiologist silentRuntime False]
    gen no e2
  have two: "fst (chat silentRuntime demoWorld 1 (ask text_met)) =
       ChatOk \<lparr>answer = noResponseText,
              replyMessages = [\<lparr>role = User, content = text_met\<rparr>,
                               \<lparr>role = Assistant, content = noResponseText\<rparr>],
              replyDoctor = None, replyPendingDoctor = None\<rparr>"
    by simp
  from one two conv1 conv3 doc gen empty no silent show ?thesis by simp
qed

end
